theory Spec2Isabelle
  imports Main "HOL-Library.Sublist"
begin

section \<open>The serve command of go-swagger (cmd/swagger/commands/serve.go)\<close>

text \<open>
  The file holds one method, \<^verbatim>\<open>(*ServeCmd).Execute\<close>. It is straight-line code with
  early returns: load the specification, optionally expand it, serialise it, bind a
  listener, decide which documentation UI is put in front of the document handler, start
  the HTTP server on a goroutine, optionally open a browser, and wait for the server.

  Everything the method calls outside its own file (the loader, the expander, the JSON
  encoder, the network, \<^verbatim>\<open>path.Join\<close>, the browser launcher, the HTTP server) is a
  parameter of the model, collected in the record \<open>env\<close>. The Go functions return a value
  together with an \<^verbatim>\<open>error\<close>; the model keeps that shape, so every
  \<^verbatim>\<open>if err != nil { return err }\<close> of the source is an \<open>if\<close> of the model.
  The calls the method makes are recorded, in program order and with their arguments, in
  a trace of events, which is what the statements about "before serving begins" and
  "attempted once" are about.
\<close>

subsection \<open>Go values\<close>

text \<open>A value of Go's interface type \<^verbatim>\<open>error\<close>: \<open>nil\<close> or an error with its message.\<close>

datatype error = nil | Err string

definition errors_New :: "string \<Rightarrow> error" where
  "errors_New text = Err text"

text \<open>\<^verbatim>\<open>[]byte\<close> and \<^verbatim>\<open>string\<close> are both sequences of bytes.\<close>

type_synonym bytes = string

text \<open>
  What a call that may never return does: it returns an \<^verbatim>\<open>error\<close>, or it blocks for
  ever. \<^verbatim>\<open>http.Server.Serve\<close> blocks while the server runs, and so does \<open>Execute\<close>
  when it receives from the channel \<^verbatim>\<open>errFuture\<close>.
\<close>

datatype outcome = Returns error | Blocks

text \<open>
  \<^verbatim>\<open>strconv.Itoa\<close>, and the verb \<^verbatim>\<open>%d\<close> of \<^verbatim>\<open>fmt.Sprintf\<close>: the decimal digits of
  an \<^verbatim>\<open>int\<close>, with a minus sign when negative. Ports are never computed with, so the
  machine integer is modelled by \<open>int\<close>.
\<close>

fun decimal :: "nat \<Rightarrow> string" where
  "decimal n =
     (if n < 10 then [''0123456789'' ! n]
      else decimal (n div 10) @ [''0123456789'' ! (n mod 10)])"

definition strconv_Itoa :: "int \<Rightarrow> string" where
  "strconv_Itoa i = (if i < 0 then CHR ''-'' # decimal (nat (- i)) else decimal (nat i))"

text \<open>\<^verbatim>\<open>fmt.Sprintf("http://%s:%d%s", sh, sp, p)\<close>, the only format the file uses.\<close>

definition Sprintf_http :: "string \<Rightarrow> int \<Rightarrow> string \<Rightarrow> string" where
  "Sprintf_http sh sp p = ''http://'' @ sh @ '':'' @ strconv_Itoa sp @ p"

text \<open>\<^verbatim>\<open>strings.Join(elems, sep)\<close>.\<close>

fun strings_Join :: "string list \<Rightarrow> string \<Rightarrow> string" where
  "strings_Join [] sep = []"
| "strings_Join [e] sep = e"
| "strings_Join (e # es) sep = e @ sep @ strings_Join es sep"

subsection \<open>The command's options and the library's option structs\<close>

definition DefaultSwaggerCloudStaticFileUrLPrefix :: string where
  "DefaultSwaggerCloudStaticFileUrLPrefix = ''https://unpkg.com/swagger-ui-dist''"

definition DefaultRedocCloudStaticFileUrLPrefix :: string where
  "DefaultRedocCloudStaticFileUrLPrefix = ''https://cdn.jsdelivr.net/npm/redoc/bundles''"

record ServeCmd =
  BasePath :: string
  Flavor :: string
  DocURL :: string
  NoOpen :: bool
  NoUI :: bool
  Flatten :: bool
  Port :: int
  Host :: string
  Path :: string
  SourceUrL :: string

text \<open>\<^verbatim>\<open>spec.ExpandOptions\<close>, the three fields the command sets.\<close>

record ExpandOptions =
  SkipSchemas :: bool
  ContinueOnError :: bool
  AbsoluteCircularRef :: bool

text \<open>
  \<^verbatim>\<open>middleware.RedocOpts\<close> and \<^verbatim>\<open>middleware.SwaggerUIOpts\<close>, the fields the command
  sets. Both structs have fields called \<^verbatim>\<open>BasePath\<close>, \<^verbatim>\<open>SpecURL\<close> and \<^verbatim>\<open>Path\<close>; here
  they carry the struct's name.
\<close>

record RedocOpts =
  Redoc_BasePath :: string
  Redoc_SpecURL :: string
  Redoc_Path :: string
  RedocURL :: string

record SwaggerUIOpts =
  SwaggerUI_BasePath :: string
  SwaggerUI_SpecURL :: string
  SwaggerUI_Path :: string
  SwaggerURL :: string
  SwaggerPresetURL :: string
  SwaggerStylesURL :: string
  Favicon16 :: string
  Favicon32 :: string

text \<open>
  An \<^verbatim>\<open>http.Handler\<close> built by the command is a chain of library middlewares, each
  wrapping the next handler. The chain is kept as the term the code builds:
  \<^verbatim>\<open>http.NotFoundHandler()\<close>, \<^verbatim>\<open>middleware.Redoc(opts, next)\<close>,
  \<^verbatim>\<open>middleware.SwaggerUI(opts, next)\<close>, \<^verbatim>\<open>middleware.Spec(basePath, b, next)\<close> and
  \<^verbatim>\<open>handlers.CORS()(next)\<close> (called with no option).
\<close>

datatype handler =
    http_NotFoundHandler
  | middleware_Redoc RedocOpts handler
  | middleware_SwaggerUI SwaggerUIOpts handler
  | middleware_Spec string bytes handler
  | handlers_CORS handler

text \<open>The \<^verbatim>\<open>http.Server\<close> the goroutine sets up.\<close>

record http_Server =
  KeepAlivesEnabled :: bool
  Handler :: handler

subsection \<open>The collaborators\<close>

text \<open>
  \<open>'d\<close> is \<^verbatim>\<open>*loads.Document\<close>, \<open>'s\<close> is \<^verbatim>\<open>*spec.Swagger\<close>, \<open>'l\<close> is
  \<^verbatim>\<open>net.Listener\<close>. \<open>Addr_String l\<close> is \<^verbatim>\<open>l.Addr().String()\<close>. \<open>Serve\<close> is
  \<^verbatim>\<open>(*http.Server).Serve\<close>.
\<close>

record ('d, 's, 'l) env =
  loads_Spec :: "string \<Rightarrow> 'd \<times> error"
  Expanded :: "'d \<Rightarrow> ExpandOptions \<Rightarrow> 'd \<times> error"
  Spec :: "'d \<Rightarrow> 's"
  json_MarshalIndent :: "'s \<Rightarrow> string \<Rightarrow> string \<Rightarrow> bytes \<times> error"
  net_JoinHostPort :: "string \<Rightarrow> string \<Rightarrow> string"
  net_Listen :: "string \<Rightarrow> string \<Rightarrow> 'l \<times> error"
  Addr_String :: "'l \<Rightarrow> string"
  swag_SplitHostPort :: "string \<Rightarrow> string \<times> int \<times> error"
  path_Join :: "string list \<Rightarrow> string"
  webbrowser_Open :: "string \<Rightarrow> error"
  Serve :: "http_Server \<Rightarrow> 'l \<Rightarrow> outcome"

text \<open>The calls of a run, in program order.\<close>

datatype ('d, 's, 'l) event =
    Call_loads_Spec string
  | Call_Expanded 'd ExpandOptions
  | Call_MarshalIndent 's string string
  | Call_Listen string string
  | Call_SplitHostPort string
  | Go_Serve http_Server 'l
  | Call_Open string
  | Log_Println "string list"

type_synonym ('d, 's, 'l) run = "outcome \<times> ('d, 's, 'l) event list"

definition emit :: "('d, 's, 'l) event \<Rightarrow> ('d, 's, 'l) run \<Rightarrow> ('d, 's, 'l) run" where
  "emit e rest = (fst rest, e # snd rest)"

subsection \<open>Execute\<close>

text \<open>Lines 52 to 56: the options of the expansion.\<close>

definition expand_options :: ExpandOptions where
  "expand_options = \<lparr>SkipSchemas = False, ContinueOnError = True, AbsoluteCircularRef = True\<rparr>"

text \<open>Lines 68 to 71: the base path, \<^verbatim>\<open>/\<close> when the option is empty.\<close>

definition base_path :: "ServeCmd \<Rightarrow> string" where
  "base_path s = (if BasePath s = '''' then ''/'' else BasePath s)"

text \<open>Line 73: the address handed to \<^verbatim>\<open>net.Listen\<close>.\<close>

definition listen_address :: "('d, 's, 'l) env \<Rightarrow> ServeCmd \<Rightarrow> string" where
  "listen_address env s = net_JoinHostPort env (Host s) (strconv_Itoa (Port s))"

text \<open>Lines 81 to 83: the host shown in the visit URL.\<close>

definition display_host :: "string \<Rightarrow> string" where
  "display_host sh = (if sh = ''0.0.0.0'' then ''localhost'' else sh)"

text \<open>Lines 89 to 98: the two asset prefixes, \<open>(reDocUrlPrefix, swaggerUiUrlPrefix)\<close>.\<close>

definition url_prefixes :: "ServeCmd \<Rightarrow> string \<times> string" where
  "url_prefixes s =
     (if SourceUrL s \<noteq> '''' then (SourceUrL s, SourceUrL s)
      else (DefaultRedocCloudStaticFileUrLPrefix, DefaultSwaggerCloudStaticFileUrLPrefix))"

text \<open>
  Lines 85 to 125: the handler chain and the visit URL, from the base path, the serialised
  document \<open>b\<close> and the host \<open>sh\<close> and port \<open>sp\<close> of the listener (\<open>sh\<close> after line 83).
\<close>

definition compose ::
  "('d, 's, 'l) env \<Rightarrow> ServeCmd \<Rightarrow> string \<Rightarrow> bytes \<Rightarrow> string \<Rightarrow> int \<Rightarrow> handler \<times> string" where
  "compose env s basePath b sh sp =
     (let visit = DocURL s;
          handler = http_NotFoundHandler;
          (reDocUrlPrefix, swaggerUiUrlPrefix) = url_prefixes s;
          (handler, visit) =
            (if \<not> NoUI s then
               (if Flavor s = ''redoc'' then
                  (middleware_Redoc
                     \<lparr>Redoc_BasePath = basePath,
                      Redoc_SpecURL = path_Join env [basePath, ''swagger.json''],
                      Redoc_Path = Path s,
                      RedocURL = strings_Join [reDocUrlPrefix, ''redoc.standalone.js''] ''/''\<rparr>
                     handler,
                   Sprintf_http sh sp (path_Join env [basePath, ''docs'']))
                else if visit \<noteq> '''' \<or> Flavor s = ''swagger'' then
                  (middleware_SwaggerUI
                     \<lparr>SwaggerUI_BasePath = basePath,
                      SwaggerUI_SpecURL = path_Join env [basePath, ''swagger.json''],
                      SwaggerUI_Path = Path s,
                      SwaggerURL = strings_Join [swaggerUiUrlPrefix, ''swagger-ui-bundle.js''] ''/'',
                      SwaggerPresetURL =
                        strings_Join [swaggerUiUrlPrefix, ''swagger-ui-standalone-preset.js''] ''/'',
                      SwaggerStylesURL = strings_Join [swaggerUiUrlPrefix, ''swagger-ui.css''] ''/'',
                      Favicon16 = strings_Join [swaggerUiUrlPrefix, ''favicon-16x16.png''] ''/'',
                      Favicon32 = strings_Join [swaggerUiUrlPrefix, ''favicon-32x32.png''] ''/''\<rparr>
                     handler,
                   Sprintf_http sh sp (path_Join env [basePath, Path s]))
                else (handler, visit))
             else (handler, visit))
      in (handlers_CORS (middleware_Spec basePath b handler), visit))"

text \<open>
  Lines 126 to 142. The \<^verbatim>\<open>go\<close> statement starts the server on its goroutine; the main
  path goes on to the browser and then receives from \<^verbatim>\<open>errFuture\<close>, that is, it ends
  the way \<^verbatim>\<open>Serve\<close> ends.
\<close>

definition serve_and_open ::
  "('d, 's, 'l) env \<Rightarrow> ServeCmd \<Rightarrow> 'l \<Rightarrow> handler \<Rightarrow> string \<Rightarrow> ('d, 's, 'l) run" where
  "serve_and_open env s listener handler visit =
     (let docServer = \<lparr>KeepAlivesEnabled = True, Handler = handler\<rparr> in
      emit (Go_Serve docServer listener)
        (if \<not> NoOpen s \<and> \<not> NoUI s then
           emit (Call_Open visit)
             (let err = webbrowser_Open env visit in
              if err \<noteq> nil then (Returns err, [])
              else emit (Log_Println [''serving docs at'', visit])
                     (Serve env docServer listener, []))
         else emit (Log_Println [''serving docs at'', visit])
                (Serve env docServer listener, [])))"

text \<open>Lines 63 to 83, followed by the composition and the serving.\<close>

definition serve_document :: "('d, 's, 'l) env \<Rightarrow> ServeCmd \<Rightarrow> 'd \<Rightarrow> ('d, 's, 'l) run" where
  "serve_document env s specDoc =
     emit (Call_MarshalIndent (Spec env specDoc) '''' ''  '')
       (let (b, err) = json_MarshalIndent env (Spec env specDoc) '''' ''  '' in
        if err \<noteq> nil then (Returns err, [])
        else
          let basePath = base_path s in
          emit (Call_Listen ''tcp4'' (listen_address env s))
            (let (listener, err) = net_Listen env ''tcp4'' (listen_address env s) in
             if err \<noteq> nil then (Returns err, [])
             else
               emit (Call_SplitHostPort (Addr_String env listener))
                 (let (sh, sp, err) = swag_SplitHostPort env (Addr_String env listener) in
                  if err \<noteq> nil then (Returns err, [])
                  else
                    let sh = display_host sh;
                        (handler, visit) = compose env s basePath b sh sp
                    in serve_and_open env s listener handler visit)))"

text \<open>Lines 41 to 61, followed by the rest.\<close>

definition Execute :: "('d, 's, 'l) env \<Rightarrow> ServeCmd \<Rightarrow> string list \<Rightarrow> ('d, 's, 'l) run" where
  "Execute env s args =
     (if length args = 0 then
        (Returns (errors_New ''specify the spec to serve as argument to the serve command''), [])
      else
        emit (Call_loads_Spec (args ! 0))
          (let (specDoc, err) = loads_Spec env (args ! 0) in
           if err \<noteq> nil then (Returns err, [])
           else if Flatten s then
             emit (Call_Expanded specDoc expand_options)
               (let (specDoc, err) = Expanded env specDoc expand_options in
                if err \<noteq> nil then (Returns err, [])
                else serve_document env s specDoc)
           else serve_document env s specDoc))"

subsection \<open>What a trace shows\<close>

definition served :: "('d, 's, 'l) event list \<Rightarrow> (http_Server \<times> 'l) list" where
  "served tr = [(srv, l). Go_Serve srv l \<leftarrow> tr]"

definition opened :: "('d, 's, 'l) event list \<Rightarrow> string list" where
  "opened tr = [u. Call_Open u \<leftarrow> tr]"

definition logged :: "('d, 's, 'l) event list \<Rightarrow> string list list" where
  "logged tr = [msg. Log_Println msg \<leftarrow> tr]"

definition listened :: "('d, 's, 'l) event list \<Rightarrow> (string \<times> string) list" where
  "listened tr = [(network, address). Call_Listen network address \<leftarrow> tr]"

definition expanded :: "('d, 's, 'l) event list \<Rightarrow> ('d \<times> ExpandOptions) list" where
  "expanded tr = [(d, opts). Call_Expanded d opts \<leftarrow> tr]"

definition marshalled :: "('d, 's, 'l) event list \<Rightarrow> ('s \<times> string \<times> string) list" where
  "marshalled tr = [(v, pre, indent). Call_MarshalIndent v pre indent \<leftarrow> tr]"

text \<open>
  The visit URL as a run shows it: what is handed to the browser, and what is printed
  after the words \<^verbatim>\<open>serving docs at\<close>.
\<close>

fun visit_of :: "('d, 's, 'l) event \<Rightarrow> string list" where
  "visit_of (Call_Open u) = [u]"
| "visit_of (Log_Println msg) = drop 1 msg"
| "visit_of e = []"

definition visits :: "('d, 's, 'l) event list \<Rightarrow> string list" where
  "visits tr = concat (map visit_of tr)"

text \<open>The steps of the command, one for each kind of call.\<close>

datatype step = Load | Expand | Marshal | Listen | SplitHostPort | ServeStart | OpenBrowser | Log

fun step_of :: "('d, 's, 'l) event \<Rightarrow> step" where
  "step_of (Call_loads_Spec a) = Load"
| "step_of (Call_Expanded d opts) = Expand"
| "step_of (Call_MarshalIndent v pre indent) = Marshal"
| "step_of (Call_Listen network address) = Listen"
| "step_of (Call_SplitHostPort a) = SplitHostPort"
| "step_of (Go_Serve srv l) = ServeStart"
| "step_of (Call_Open u) = OpenBrowser"
| "step_of (Log_Println msg) = Log"

text \<open>The asset URLs a handler chain refers to, and the chain with its UI taken out.\<close>

fun asset_urls :: "handler \<Rightarrow> string list" where
  "asset_urls http_NotFoundHandler = []"
| "asset_urls (middleware_Redoc opts next) = RedocURL opts # asset_urls next"
| "asset_urls (middleware_SwaggerUI opts next) =
     [SwaggerURL opts, SwaggerPresetURL opts, SwaggerStylesURL opts, Favicon16 opts, Favicon32 opts]
     @ asset_urls next"
| "asset_urls (middleware_Spec basePath b next) = asset_urls next"
| "asset_urls (handlers_CORS next) = asset_urls next"

fun strip_ui :: "handler \<Rightarrow> handler" where
  "strip_ui http_NotFoundHandler = http_NotFoundHandler"
| "strip_ui (middleware_Redoc opts next) = strip_ui next"
| "strip_ui (middleware_SwaggerUI opts next) = strip_ui next"
| "strip_ui (middleware_Spec basePath b next) = middleware_Spec basePath b (strip_ui next)"
| "strip_ui (handlers_CORS next) = handlers_CORS (strip_ui next)"

subsection \<open>A sample environment\<close>

text \<open>
  \<^verbatim>\<open>path.Join\<close> of Go's standard library, by the rules of \<^verbatim>\<open>path.Clean\<close>: the
  elements are joined with slashes, empty and \<^verbatim>\<open>.\<close> elements go, a \<^verbatim>\<open>..\<close> takes the
  element before it with it, and is dropped at the root.
\<close>

fun split_slash :: "string \<Rightarrow> string list" where
  "split_slash [] = [[]]"
| "split_slash (c # cs) =
     (if c = CHR ''/'' then [] # split_slash cs
      else (case split_slash cs of [] \<Rightarrow> [[c]] | e # es \<Rightarrow> (c # e) # es))"

fun clean_elems :: "bool \<Rightarrow> string list \<Rightarrow> string list \<Rightarrow> string list" where
  "clean_elems rooted [] out = rev out"
| "clean_elems rooted (e # es) out =
     (if e = '''' \<or> e = ''.'' then clean_elems rooted es out
      else if e = ''..'' then
        (case out of
           [] \<Rightarrow> clean_elems rooted es (if rooted then [] else [''..''])
         | t # below \<Rightarrow>
             if t = ''..'' then clean_elems rooted es (''..'' # out)
             else clean_elems rooted es below)
      else clean_elems rooted es (e # out))"

definition path_Clean :: "string \<Rightarrow> string" where
  "path_Clean p =
     (if p = '''' then ''.''
      else
        let rooted = (hd p = CHR ''/'');
            out = (if rooted then ''/'' else '''') @
                  strings_Join (clean_elems rooted (split_slash p) []) ''/''
        in if out = '''' then ''.'' else out)"

definition go_path_Join :: "string list \<Rightarrow> string" where
  "go_path_Join elem =
     (case dropWhile (\<lambda>e. e = '''') elem of
        [] \<Rightarrow> ''''
      | es \<Rightarrow> path_Clean (strings_Join es ''/''))"

text \<open>
  One specification file exists, \<^verbatim>\<open>petstore.json\<close>; port 0 gets the free port 49152,
  port 8080 is free and port 80 may not be bound; the browser opens and the server runs
  until the process is killed. Documents and listeners are named by strings.
\<close>

definition sample_env :: "(string, string, string) env" where
  "sample_env =
     \<lparr>loads_Spec = (\<lambda>p. if p = ''petstore.json'' then (''petstore'', nil)
                         else ('''', Err ''no such file or directory'')),
      Expanded = (\<lambda>d opts. (d @ '' expanded'', nil)),
      Spec = (\<lambda>d. d),
      json_MarshalIndent = (\<lambda>v pre indent. (''{'' @ indent @ v @ ''}'', nil)),
      net_JoinHostPort = (\<lambda>h p. h @ '':'' @ p),
      net_Listen = (\<lambda>network a.
         if a = ''0.0.0.0:0'' then (''0.0.0.0:49152'', nil)
         else if a = ''127.0.0.1:8080'' then (''127.0.0.1:8080'', nil)
         else ('''', Err ''bind: permission denied'')),
      Addr_String = (\<lambda>l. l),
      swag_SplitHostPort = (\<lambda>a.
         if a = ''0.0.0.0:49152'' then (''0.0.0.0'', 49152, nil)
         else if a = ''127.0.0.1:8080'' then (''127.0.0.1'', 8080, nil)
         else ('''', 0, Err ''missing port in address'')),
      path_Join = go_path_Join,
      webbrowser_Open = (\<lambda>u. nil),
      Serve = (\<lambda>srv l. Blocks)\<rparr>"

text \<open>The command with the defaults of its flags.\<close>

definition sample_cmd :: ServeCmd where
  "sample_cmd =
     \<lparr>BasePath = '''', Flavor = ''redoc'', DocURL = '''', NoOpen = False, NoUI = False,
      Flatten = False, Port = 0, Host = ''0.0.0.0'', Path = ''docs'', SourceUrL = ''''\<rparr>"


section \<open>The paths of a run\<close>

lemma serve_and_open_trace:
  "snd (serve_and_open env s l h v) =
     Go_Serve \<lparr>KeepAlivesEnabled = True, Handler = h\<rparr> l #
     (if \<not> NoOpen s \<and> \<not> NoUI s then
        Call_Open v #
        (if webbrowser_Open env v \<noteq> nil then [] else [Log_Println [''serving docs at'', v]])
      else [Log_Println [''serving docs at'', v]])"
  by (simp add: serve_and_open_def emit_def Let_def)

lemma serve_and_open_result:
  "fst (serve_and_open env s l h v) =
     (if \<not> NoOpen s \<and> \<not> NoUI s \<and> webbrowser_Open env v \<noteq> nil
      then Returns (webbrowser_Open env v)
      else Serve env \<lparr>KeepAlivesEnabled = True, Handler = h\<rparr> l)"
  by (simp add: serve_and_open_def emit_def Let_def)

text \<open>The four ways through lines 63 to 142, one after the other.\<close>

lemma serve_document_paths:
  "serve_document env s d =
     (let m = json_MarshalIndent env (Spec env d) '''' ''  '';
          ln = net_Listen env ''tcp4'' (listen_address env s);
          hp = swag_SplitHostPort env (Addr_String env (fst ln));
          c = compose env s (base_path s) (fst m) (display_host (fst hp)) (fst (snd hp));
          t1 = [Call_MarshalIndent (Spec env d) '''' ''  ''];
          t2 = t1 @ [Call_Listen ''tcp4'' (listen_address env s)];
          t3 = t2 @ [Call_SplitHostPort (Addr_String env (fst ln))]
      in if snd m \<noteq> nil then (Returns (snd m), t1)
         else if snd ln \<noteq> nil then (Returns (snd ln), t2)
         else if snd (snd hp) \<noteq> nil then (Returns (snd (snd hp)), t3)
         else (fst (serve_and_open env s (fst ln) (fst c) (snd c)),
               t3 @ snd (serve_and_open env s (fst ln) (fst c) (snd c))))"
  by (simp add: serve_document_def emit_def Let_def split: prod.splits)

text \<open>The ways through lines 41 to 61.\<close>

lemma Execute_paths:
  "Execute env s args =
     (let ld = loads_Spec env (args ! 0);
          ex = Expanded env (fst ld) expand_options;
          t1 = [Call_loads_Spec (args ! 0)];
          t2 = t1 @ [Call_Expanded (fst ld) expand_options]
      in if args = [] then
           (Returns (errors_New ''specify the spec to serve as argument to the serve command''), [])
         else if snd ld \<noteq> nil then (Returns (snd ld), t1)
         else if \<not> Flatten s then
           (fst (serve_document env s (fst ld)), t1 @ snd (serve_document env s (fst ld)))
         else if snd ex \<noteq> nil then (Returns (snd ex), t2)
         else (fst (serve_document env s (fst ex)), t2 @ snd (serve_document env s (fst ex))))"
  by (simp add: Execute_def emit_def Let_def split: prod.splits)

lemmas run_paths = Execute_paths serve_document_paths serve_and_open_trace serve_and_open_result

lemmas observer_defs = served_def opened_def logged_def listened_def expanded_def
  marshalled_def visits_def

text \<open>A run whose trace shows the server being started went through every step before.\<close>

lemma serve_document_started:
  assumes "serve_document env s d = (r, tr)" and "Go_Serve srv l \<in> set tr"
  shows "let b = fst (json_MarshalIndent env (Spec env d) '''' ''  '');
             hp = swag_SplitHostPort env (Addr_String env l);
             c = compose env s (base_path s) b (display_host (fst hp)) (fst (snd hp))
         in snd (json_MarshalIndent env (Spec env d) '''' ''  '') = nil \<and>
            net_Listen env ''tcp4'' (listen_address env s) = (l, nil) \<and>
            snd (snd hp) = nil \<and>
            srv = \<lparr>KeepAlivesEnabled = True, Handler = fst c\<rparr> \<and>
            r = fst (serve_and_open env s l (fst c) (snd c)) \<and>
            tr = [Call_MarshalIndent (Spec env d) '''' ''  '',
                  Call_Listen ''tcp4'' (listen_address env s),
                  Call_SplitHostPort (Addr_String env l)] @
                 snd (serve_and_open env s l (fst c) (snd c))"
  using assms
  unfolding serve_document_def emit_def Let_def
  by (auto split: if_splits prod.splits simp: serve_and_open_trace)

lemma Execute_started:
  assumes "Execute env s args = (r, tr)" and "Go_Serve srv l \<in> set tr"
  shows "let d0 = fst (loads_Spec env (args ! 0));
             d = (if Flatten s then fst (Expanded env d0 expand_options) else d0);
             b = fst (json_MarshalIndent env (Spec env d) '''' ''  '');
             hp = swag_SplitHostPort env (Addr_String env l);
             c = compose env s (base_path s) b (display_host (fst hp)) (fst (snd hp))
         in args \<noteq> [] \<and>
            snd (loads_Spec env (args ! 0)) = nil \<and>
            (Flatten s \<longrightarrow> snd (Expanded env d0 expand_options) = nil) \<and>
            snd (json_MarshalIndent env (Spec env d) '''' ''  '') = nil \<and>
            net_Listen env ''tcp4'' (listen_address env s) = (l, nil) \<and>
            snd (snd hp) = nil \<and>
            srv = \<lparr>KeepAlivesEnabled = True, Handler = fst c\<rparr> \<and>
            r = fst (serve_and_open env s l (fst c) (snd c)) \<and>
            tr = Call_loads_Spec (args ! 0) #
                 (if Flatten s then [Call_Expanded d0 expand_options] else []) @
                 [Call_MarshalIndent (Spec env d) '''' ''  '',
                  Call_Listen ''tcp4'' (listen_address env s),
                  Call_SplitHostPort (Addr_String env l)] @
                 snd (serve_and_open env s l (fst c) (snd c))"
proof -
  from assms have ne: "args \<noteq> []"
    by (auto simp: Execute_def)
  obtain d0 e0 where l0: "loads_Spec env (args ! 0) = (d0, e0)"
    by (cases "loads_Spec env (args ! 0)")
  obtain d1 e1 where l1: "Expanded env d0 expand_options = (d1, e1)"
    by (cases "Expanded env d0 expand_options")
  from assms ne l0 have e0: "e0 = nil"
    by (auto simp: Execute_def emit_def split: if_splits)
  show ?thesis
  proof (cases "Flatten s")
    case True
    with assms ne l0 l1 e0 have e1: "e1 = nil"
      by (auto simp: Execute_def emit_def split: if_splits)
    from assms ne l0 l1 e0 e1 True
    have "serve_document env s d1 = (r, tl (tl tr))" and "Go_Serve srv l \<in> set (tl (tl tr))"
      and "tr = Call_loads_Spec (args ! 0) # Call_Expanded d0 expand_options # tl (tl tr)"
      by (auto simp: Execute_def emit_def split: if_splits)
    from serve_document_started[OF this(1,2)] this(3) ne l0 l1 e0 e1 True
    show ?thesis by (simp add: Let_def)
  next
    case False
    from assms ne l0 e0 False
    have "serve_document env s d0 = (r, tl tr)" and "Go_Serve srv l \<in> set (tl tr)"
      and "tr = Call_loads_Spec (args ! 0) # tl tr"
      by (auto simp: Execute_def emit_def split: if_splits)
    from serve_document_started[OF this(1,2)] this(3) ne l0 e0 False
    show ?thesis by (simp add: Let_def)
  qed
qed

text \<open>The same paths as case rules: how a run with a given result and trace came about.\<close>

lemma serve_document_cases
  [consumes 1, case_names marshal_failed listen_failed split_failed started]:
  assumes "serve_document env s d = (r, tr)"
  obtains
    (marshal_failed)
      "snd (json_MarshalIndent env (Spec env d) '''' ''  '') \<noteq> nil"
      "r = Returns (snd (json_MarshalIndent env (Spec env d) '''' ''  ''))"
      "tr = [Call_MarshalIndent (Spec env d) '''' ''  '']"
  | (listen_failed) b where
      "json_MarshalIndent env (Spec env d) '''' ''  '' = (b, nil)"
      "snd (net_Listen env ''tcp4'' (listen_address env s)) \<noteq> nil"
      "r = Returns (snd (net_Listen env ''tcp4'' (listen_address env s)))"
      "tr = [Call_MarshalIndent (Spec env d) '''' ''  '',
             Call_Listen ''tcp4'' (listen_address env s)]"
  | (split_failed) b l where
      "json_MarshalIndent env (Spec env d) '''' ''  '' = (b, nil)"
      "net_Listen env ''tcp4'' (listen_address env s) = (l, nil)"
      "snd (snd (swag_SplitHostPort env (Addr_String env l))) \<noteq> nil"
      "r = Returns (snd (snd (swag_SplitHostPort env (Addr_String env l))))"
      "tr = [Call_MarshalIndent (Spec env d) '''' ''  '',
             Call_Listen ''tcp4'' (listen_address env s),
             Call_SplitHostPort (Addr_String env l)]"
  | (started) b l sh sp h v where
      "json_MarshalIndent env (Spec env d) '''' ''  '' = (b, nil)"
      "net_Listen env ''tcp4'' (listen_address env s) = (l, nil)"
      "swag_SplitHostPort env (Addr_String env l) = (sh, sp, nil)"
      "compose env s (base_path s) b (display_host sh) sp = (h, v)"
      "r = fst (serve_and_open env s l h v)"
      "tr = [Call_MarshalIndent (Spec env d) '''' ''  '',
             Call_Listen ''tcp4'' (listen_address env s),
             Call_SplitHostPort (Addr_String env l)] @ snd (serve_and_open env s l h v)"
proof -
  obtain b em where m: "json_MarshalIndent env (Spec env d) '''' ''  '' = (b, em)"
    by (cases "json_MarshalIndent env (Spec env d) '''' ''  ''")
  obtain l el where ln: "net_Listen env ''tcp4'' (listen_address env s) = (l, el)"
    by (cases "net_Listen env ''tcp4'' (listen_address env s)")
  obtain sh sp eh where hp: "swag_SplitHostPort env (Addr_String env l) = (sh, sp, eh)"
    by (cases "swag_SplitHostPort env (Addr_String env l)")
  obtain h v where c: "compose env s (base_path s) b (display_host sh) sp = (h, v)"
    by (cases "compose env s (base_path s) b (display_host sh) sp")
  show thesis
  proof (cases "em = nil")
    case False
    with assms m show thesis
      by (intro marshal_failed) (simp_all add: serve_document_paths Let_def)
  next
    case em: True
    show thesis
    proof (cases "el = nil")
      case False
      with assms m ln em show thesis
        by (intro listen_failed[of b]) (simp_all add: serve_document_paths Let_def)
    next
      case el: True
      show thesis
      proof (cases "eh = nil")
        case False
        with assms m ln hp em el show thesis
          by (intro split_failed[of b l]) (simp_all add: serve_document_paths Let_def)
      next
        case True
        with assms m ln hp c em el show thesis
          by (intro started[of b l sh sp h v]) (simp_all add: serve_document_paths Let_def)
      qed
    qed
  qed
qed

lemma Execute_cases [consumes 1, case_names usage load_failed expand_failed loaded]:
  assumes "Execute env s args = (r, tr)"
  obtains
    (usage)
      "args = []"
      "r = Returns (errors_New ''specify the spec to serve as argument to the serve command'')"
      "tr = []"
  | (load_failed)
      "args \<noteq> []"
      "snd (loads_Spec env (args ! 0)) \<noteq> nil"
      "r = Returns (snd (loads_Spec env (args ! 0)))"
      "tr = [Call_loads_Spec (args ! 0)]"
  | (expand_failed) d0 where
      "args \<noteq> []"
      "loads_Spec env (args ! 0) = (d0, nil)"
      "Flatten s"
      "snd (Expanded env d0 expand_options) \<noteq> nil"
      "r = Returns (snd (Expanded env d0 expand_options))"
      "tr = [Call_loads_Spec (args ! 0), Call_Expanded d0 expand_options]"
  | (loaded) d0 d tr' where
      "args \<noteq> []"
      "loads_Spec env (args ! 0) = (d0, nil)"
      "if Flatten s then Expanded env d0 expand_options = (d, nil) else d = d0"
      "serve_document env s d = (r, tr')"
      "tr = Call_loads_Spec (args ! 0) #
            (if Flatten s then [Call_Expanded d0 expand_options] else []) @ tr'"
proof -
  obtain d0 e0 where ld: "loads_Spec env (args ! 0) = (d0, e0)"
    by (cases "loads_Spec env (args ! 0)")
  obtain d1 e1 where ex: "Expanded env d0 expand_options = (d1, e1)"
    by (cases "Expanded env d0 expand_options")
  show thesis
  proof (cases "args = []")
    case True
    with assms show thesis
      by (intro usage) (simp_all add: Execute_paths)
  next
    case ne: False
    show thesis
    proof (cases "e0 = nil")
      case False
      with assms ne ld show thesis
        by (intro load_failed) (simp_all add: Execute_paths Let_def)
    next
      case e0: True
      show thesis
      proof (cases "Flatten s")
        case False
        with assms ne ld e0 show thesis
          by (intro loaded[of d0 d0 "snd (serve_document env s d0)"])
             (auto simp: Execute_paths Let_def)
      next
        case fl: True
        show thesis
        proof (cases "e1 = nil")
          case False
          with assms ne ld ex e0 fl show thesis
            by (intro expand_failed[of d0]) (simp_all add: Execute_paths Let_def)
        next
          case True
          with assms ne ld ex e0 fl show thesis
            by (intro loaded[of d0 d1 "snd (serve_document env s d1)"])
               (auto simp: Execute_paths Let_def)
        qed
      qed
    qed
  qed
qed

section \<open>The handler chain and the visit URL\<close>

lemma compose_noUI:
  "NoUI s \<Longrightarrow>
   compose env s bp b sh sp = (handlers_CORS (middleware_Spec bp b http_NotFoundHandler), DocURL s)"
  by (simp add: compose_def Let_def split: prod.splits)

lemma compose_redoc:
  "\<not> NoUI s \<Longrightarrow> Flavor s = ''redoc'' \<Longrightarrow>
   compose env s bp b sh sp =
     (handlers_CORS (middleware_Spec bp b
        (middleware_Redoc
           \<lparr>Redoc_BasePath = bp,
            Redoc_SpecURL = path_Join env [bp, ''swagger.json''],
            Redoc_Path = Path s,
            RedocURL = fst (url_prefixes s) @ ''/redoc.standalone.js''\<rparr>
           http_NotFoundHandler)),
      ''http://'' @ sh @ '':'' @ strconv_Itoa sp @ path_Join env [bp, ''docs''])"
  by (simp add: compose_def Let_def Sprintf_http_def split: prod.splits)

lemma compose_swagger:
  "\<not> NoUI s \<Longrightarrow> Flavor s \<noteq> ''redoc'' \<Longrightarrow> DocURL s \<noteq> '''' \<or> Flavor s = ''swagger'' \<Longrightarrow>
   compose env s bp b sh sp =
     (handlers_CORS (middleware_Spec bp b
        (middleware_SwaggerUI
           \<lparr>SwaggerUI_BasePath = bp,
            SwaggerUI_SpecURL = path_Join env [bp, ''swagger.json''],
            SwaggerUI_Path = Path s,
            SwaggerURL = snd (url_prefixes s) @ ''/swagger-ui-bundle.js'',
            SwaggerPresetURL = snd (url_prefixes s) @ ''/swagger-ui-standalone-preset.js'',
            SwaggerStylesURL = snd (url_prefixes s) @ ''/swagger-ui.css'',
            Favicon16 = snd (url_prefixes s) @ ''/favicon-16x16.png'',
            Favicon32 = snd (url_prefixes s) @ ''/favicon-32x32.png''\<rparr>
           http_NotFoundHandler)),
      ''http://'' @ sh @ '':'' @ strconv_Itoa sp @ path_Join env [bp, Path s])"
  by (simp add: compose_def Let_def Sprintf_http_def split: prod.splits)

lemma compose_no_flavor:
  "\<not> NoUI s \<Longrightarrow> Flavor s \<noteq> ''redoc'' \<Longrightarrow> Flavor s \<noteq> ''swagger'' \<Longrightarrow> DocURL s = '''' \<Longrightarrow>
   compose env s bp b sh sp = (handlers_CORS (middleware_Spec bp b http_NotFoundHandler), '''')"
  by (simp add: compose_def Let_def split: prod.splits)

text \<open>What a run that started the server shows of the visit URL.\<close>

lemma visits_serve_and_open: "set (visits (snd (serve_and_open env s l h v))) = {v}"
  by (simp add: serve_and_open_trace visits_def)

lemma opened_serve_and_open:
  "opened (snd (serve_and_open env s l h v)) = (if \<not> NoOpen s \<and> \<not> NoUI s then [v] else [])"
  by (simp add: serve_and_open_trace opened_def)

lemma started_visits:
  assumes "Execute env s args = (r, tr)" and "Go_Serve srv l \<in> set tr"
    and "swag_SplitHostPort env (Addr_String env l) = (sh, sp, e)"
  shows "\<exists>v b. marshalled tr = [(v, '''', ''  '')] \<and>
           json_MarshalIndent env v '''' ''  '' = (b, nil) \<and>
           Handler srv = fst (compose env s (base_path s) b (display_host sh) sp) \<and>
           set (visits tr) = {snd (compose env s (base_path s) b (display_host sh) sp)} \<and>
           opened tr =
             (if \<not> NoOpen s \<and> \<not> NoUI s
              then [snd (compose env s (base_path s) b (display_host sh) sp)] else [])"
proof -
  define d where "d = (if Flatten s
    then fst (Expanded env (fst (loads_Spec env (args ! 0))) expand_options)
    else fst (loads_Spec env (args ! 0)))"
  define b where "b = fst (json_MarshalIndent env (Spec env d) '''' ''  '')"
  define c where "c = compose env s (base_path s) b (display_host sh) sp"
  define pre :: "('a, 'b, 'c) event list" where "pre = Call_loads_Spec (args ! 0) #
    (if Flatten s then [Call_Expanded (fst (loads_Spec env (args ! 0))) expand_options] else [])"
  note st = Execute_started[OF assms(1,2), unfolded Let_def, folded d_def, folded b_def]
  from st assms(3) have tr: "tr = pre @
      [Call_MarshalIndent (Spec env d) '''' ''  '', Call_Listen ''tcp4'' (listen_address env s),
       Call_SplitHostPort (Addr_String env l)] @ snd (serve_and_open env s l (fst c) (snd c))"
    by (simp add: c_def pre_def)
  have v: "set (visits tr) = {snd c}"
    using visits_serve_and_open[of env s l "fst c" "snd c"]
    by (simp add: tr visits_def pre_def)
  have o: "opened tr = (if \<not> NoOpen s \<and> \<not> NoUI s then [snd c] else [])"
    using opened_serve_and_open[of env s l "fst c" "snd c"]
    by (simp add: tr opened_def pre_def)
  have m: "marshalled tr = [(Spec env d, '''', ''  '')]"
    by (simp add: tr marshalled_def pre_def serve_and_open_trace)
  from st have mb: "json_MarshalIndent env (Spec env d) '''' ''  '' = (b, nil)"
    by (simp add: prod_eq_iff b_def)
  from st assms(3) have h: "Handler srv = fst c"
    by (auto simp: c_def)
  from v o m mb h show ?thesis
    unfolding c_def by blast
qed

text \<open>The composition reads \<^verbatim>\<open>path.Join\<close> and nothing else of the environment.\<close>

lemma compose_env:
  "path_Join env' = path_Join env \<Longrightarrow> compose env' s bp b sh sp = compose env s bp b sh sp"
  by (simp add: compose_def Let_def split: prod.splits)

text \<open>The server a run starts, if it starts one.\<close>

lemma served_Execute:
  "served (snd (Execute env s args)) =
     (let ld = loads_Spec env (args ! 0);
          ex = Expanded env (fst ld) expand_options;
          d = (if Flatten s then fst ex else fst ld);
          m = json_MarshalIndent env (Spec env d) '''' ''  '';
          ln = net_Listen env ''tcp4'' (listen_address env s);
          hp = swag_SplitHostPort env (Addr_String env (fst ln))
      in if args \<noteq> [] \<and> snd ld = nil \<and> (Flatten s \<longrightarrow> snd ex = nil) \<and> snd m = nil \<and>
            snd ln = nil \<and> snd (snd hp) = nil
         then [(\<lparr>KeepAlivesEnabled = True,
                  Handler = fst (compose env s (base_path s) (fst m) (display_host (fst hp))
                                   (fst (snd hp)))\<rparr>, fst ln)]
         else [])"
  by (simp add: run_paths Let_def served_def)

lemma strip_ui_compose:
  "strip_ui (fst (compose env s bp b sh sp)) =
     handlers_CORS (middleware_Spec bp b http_NotFoundHandler)"
  by (simp add: compose_def Let_def split: prod.splits)

lemma compose_NoOpen:
  "fst (compose env (s\<lparr>NoOpen := x\<rparr>) bp b sh sp) = fst (compose env s bp b sh sp)"
  by (simp add: compose_def url_prefixes_def Let_def split: prod.splits)

text \<open>What the traces of the later parts show.\<close>

lemma serve_document_observed:
  "expanded (snd (serve_document env s d)) = []"
  "marshalled (snd (serve_document env s d)) = [(Spec env d, '''', ''  '')]"
  by (simp_all add: serve_document_paths Let_def observer_defs serve_and_open_trace)

text \<open>
  The serialisation. A run calls the encoder at most once, with the empty prefix and an
  indent of two spaces. What the encoder makes of the document (the order of the keys,
  the same bytes for the same document) is the encoder's own; it is a parameter here.
\<close>

lemma serialisation_call:
  "marshalled (snd (Execute env s args)) = [] \<or>
   (\<exists>v. marshalled (snd (Execute env s args)) = [(v, '''', ''  '')])"
proof -
  obtain r tr where run: "Execute env s args = (r, tr)"
    by (cases "Execute env s args")
  then have "marshalled tr = [] \<or> (\<exists>v. marshalled tr = [(v, '''', ''  '')])"
  proof (cases rule: Execute_cases)
    case (loaded d0 d tr')
    from loaded(4) have "tr' = snd (serve_document env s d)"
      by simp
    with loaded(5) have "marshalled tr = [(Spec env d, '''', ''  '')]"
      using serve_document_observed(2)[of env s d]
      by (simp add: marshalled_def)
    then show ?thesis by blast
  qed (simp_all add: marshalled_def)
  with run show ?thesis by simp
qed

section \<open>Evaluating the sample runs\<close>

lemmas run_defs = Execute_def serve_document_def serve_and_open_def emit_def Let_def

lemmas sample_defs = sample_env_def sample_cmd_def base_path_def listen_address_def
  display_host_def compose_def url_prefixes_def go_path_Join_def path_Clean_def
  Sprintf_http_def strconv_Itoa_def expand_options_def errors_New_def
  DefaultRedocCloudStaticFileUrLPrefix_def DefaultSwaggerCloudStaticFileUrLPrefix_def

section \<open>Properties of the command\<close>

text \<open>
  C1. With \<open>NoUI\<close> set, a run that starts the server serves the chain
  \<open>CORS (Spec basePath b NotFound)\<close>: no UI middleware is in it, the document
  middleware is mounted at the base path with exactly the bytes \<open>b\<close> that the one call of
  \<^verbatim>\<open>json.MarshalIndent\<close> returned, and the cross-origin layer is outermost. The visit
  URL that the run prints is \<open>DocURL\<close>, whatever it is, and no browser is opened. The
  last conjunct says the same of the composition alone, for every base path, document,
  host and port.
\<close>

theorem noUI_serves_document_only:
  assumes "NoUI s" and "Execute env s args = (r, tr)" and "Go_Serve srv l \<in> set tr"
  shows "(\<exists>v b. marshalled tr = [(v, '''', ''  '')] \<and>
            json_MarshalIndent env v '''' ''  '' = (b, nil) \<and>
            Handler srv = handlers_CORS (middleware_Spec (base_path s) b http_NotFoundHandler)) \<and>
         set (visits tr) = {DocURL s} \<and> opened tr = [] \<and>
         compose env s bp b' sh sp =
           (handlers_CORS (middleware_Spec bp b' http_NotFoundHandler), DocURL s)"
proof -
  obtain sh0 sp0 e0 where "swag_SplitHostPort env (Addr_String env l) = (sh0, sp0, e0)"
    by (cases "swag_SplitHostPort env (Addr_String env l)")
  from started_visits[OF assms(2,3) this] assms(1) show ?thesis
    by (auto simp: compose_noUI)
qed

theorem noUI_serves_document_only_witness:
  "NoUI (sample_cmd\<lparr>NoUI := True, DocURL := ''http://example.com/viewer''\<rparr>) \<and>
   Execute sample_env (sample_cmd\<lparr>NoUI := True, DocURL := ''http://example.com/viewer''\<rparr>)
     [''petstore.json''] =
     (Blocks,
      [Call_loads_Spec ''petstore.json'',
       Call_MarshalIndent ''petstore'' '''' ''  '',
       Call_Listen ''tcp4'' ''0.0.0.0:0'',
       Call_SplitHostPort ''0.0.0.0:49152'',
       Go_Serve \<lparr>KeepAlivesEnabled = True,
                 Handler = handlers_CORS (middleware_Spec ''/'' ''{  petstore}''
                             http_NotFoundHandler)\<rparr> ''0.0.0.0:49152'',
       Log_Println [''serving docs at'', ''http://example.com/viewer'']]) \<and>
   set (visits (snd (Execute sample_env
      (sample_cmd\<lparr>NoUI := True, DocURL := ''http://example.com/viewer''\<rparr>)
      [''petstore.json'']))) = {''http://example.com/viewer''}"
proof -
  let ?s = "sample_cmd\<lparr>NoUI := True, DocURL := ''http://example.com/viewer''\<rparr>"
  let ?srv = "\<lparr>KeepAlivesEnabled = True,
               Handler = handlers_CORS (middleware_Spec ''/'' ''{  petstore}''
                           http_NotFoundHandler)\<rparr>"
  let ?tr = "[Call_loads_Spec ''petstore.json'',
       Call_MarshalIndent ''petstore'' '''' ''  '',
       Call_Listen ''tcp4'' ''0.0.0.0:0'',
       Call_SplitHostPort ''0.0.0.0:49152'',
       Go_Serve ?srv ''0.0.0.0:49152'',
       Log_Println [''serving docs at'', ''http://example.com/viewer'']]"
  have noui: "NoUI ?s"
    by (simp add: sample_cmd_def)
  have run: "Execute sample_env ?s [''petstore.json''] = (Blocks, ?tr)"
    by (simp add: run_defs sample_defs)
  have started: "Go_Serve ?srv ''0.0.0.0:49152'' \<in> set ?tr"
    by simp
  from noUI_serves_document_only[OF noui run started] noui run show ?thesis
    by (simp add: sample_cmd_def)
qed

text \<open>
  C2. With the UI on and the flavor \<^verbatim>\<open>redoc\<close>, the visit URL that a run shows (to the
  browser, to the log) is \<^verbatim>\<open>http://\<close>, the display host, a colon, the port of the
  listener, and \<^verbatim>\<open>path.Join(basePath, "docs")\<close>. The option \<open>Path\<close> is not in it, and
  changing \<open>Path\<close> does not change what the composition computes as visit URL. The Redoc
  middleware is set up with \<open>Path\<close> all the same.
\<close>

theorem redoc_visit_url_ignores_Path:
  assumes "\<not> NoUI s" and "Flavor s = ''redoc''"
    and "Execute env s args = (r, tr)" and "Go_Serve srv l \<in> set tr"
    and "swag_SplitHostPort env (Addr_String env l) = (sh, sp, e)"
  shows "set (visits tr) =
           {''http://'' @ display_host sh @ '':'' @ strconv_Itoa sp @
            path_Join env [base_path s, ''docs'']} \<and>
         (\<exists>b opts. Handler srv =
              handlers_CORS (middleware_Spec (base_path s) b
                (middleware_Redoc opts http_NotFoundHandler)) \<and>
            Redoc_BasePath opts = base_path s \<and> Redoc_Path opts = Path s \<and>
            Redoc_SpecURL opts = path_Join env [base_path s, ''swagger.json'']) \<and>
         snd (compose env (s\<lparr>Path := p\<rparr>) bp b' h' p') = snd (compose env s bp b' h' p')"
proof -
  have "\<not> NoUI (s\<lparr>Path := p\<rparr>)" and "Flavor (s\<lparr>Path := p\<rparr>) = ''redoc''"
    using assms(1,2) by simp_all
  then have indep: "snd (compose env (s\<lparr>Path := p\<rparr>) bp b' h' p') = snd (compose env s bp b' h' p')"
    by (simp add: compose_redoc assms(1,2))
  from started_visits[OF assms(3,4,5)] indep show ?thesis
    by (auto simp: compose_redoc[OF assms(1,2)])
qed

theorem redoc_visit_url_ignores_Path_witness:
  "\<not> NoUI (sample_cmd\<lparr>Path := ''ui''\<rparr>) \<and> Flavor (sample_cmd\<lparr>Path := ''ui''\<rparr>) = ''redoc'' \<and>
   Execute sample_env (sample_cmd\<lparr>Path := ''ui''\<rparr>) [''petstore.json''] =
     (Blocks,
      [Call_loads_Spec ''petstore.json'',
       Call_MarshalIndent ''petstore'' '''' ''  '',
       Call_Listen ''tcp4'' ''0.0.0.0:0'',
       Call_SplitHostPort ''0.0.0.0:49152'',
       Go_Serve \<lparr>KeepAlivesEnabled = True,
                 Handler = handlers_CORS (middleware_Spec ''/'' ''{  petstore}''
                   (middleware_Redoc
                      \<lparr>Redoc_BasePath = ''/'', Redoc_SpecURL = ''/swagger.json'',
                       Redoc_Path = ''ui'',
                       RedocURL = ''https://cdn.jsdelivr.net/npm/redoc/bundles/redoc.standalone.js''\<rparr>
                      http_NotFoundHandler))\<rparr> ''0.0.0.0:49152'',
       Call_Open ''http://localhost:49152/docs'',
       Log_Println [''serving docs at'', ''http://localhost:49152/docs'']]) \<and>
   swag_SplitHostPort sample_env (Addr_String sample_env ''0.0.0.0:49152'') =
     (''0.0.0.0'', 49152, nil) \<and>
   set (visits (snd (Execute sample_env (sample_cmd\<lparr>Path := ''ui''\<rparr>) [''petstore.json'']))) =
     {''http://localhost:49152/docs''}"
proof -
  let ?s = "sample_cmd\<lparr>Path := ''ui''\<rparr>"
  let ?srv = "\<lparr>KeepAlivesEnabled = True,
                 Handler = handlers_CORS (middleware_Spec ''/'' ''{  petstore}''
                   (middleware_Redoc
                      \<lparr>Redoc_BasePath = ''/'', Redoc_SpecURL = ''/swagger.json'',
                       Redoc_Path = ''ui'',
                       RedocURL = ''https://cdn.jsdelivr.net/npm/redoc/bundles/redoc.standalone.js''\<rparr>
                      http_NotFoundHandler))\<rparr>"
  let ?tr = "[Call_loads_Spec ''petstore.json'',
       Call_MarshalIndent ''petstore'' '''' ''  '',
       Call_Listen ''tcp4'' ''0.0.0.0:0'',
       Call_SplitHostPort ''0.0.0.0:49152'',
       Go_Serve ?srv ''0.0.0.0:49152'',
       Call_Open ''http://localhost:49152/docs'',
       Log_Println [''serving docs at'', ''http://localhost:49152/docs'']]"
  have ui: "\<not> NoUI ?s" and fl: "Flavor ?s = ''redoc''"
    by (simp_all add: sample_cmd_def)
  have run: "Execute sample_env ?s [''petstore.json''] = (Blocks, ?tr)"
    by (simp add: run_defs sample_defs)
  have started: "Go_Serve ?srv ''0.0.0.0:49152'' \<in> set ?tr"
    by simp
  have split: "swag_SplitHostPort sample_env (Addr_String sample_env ''0.0.0.0:49152'') =
     (''0.0.0.0'', 49152, nil)"
    by (simp add: sample_env_def)
  from redoc_visit_url_ignores_Path[OF ui fl run started split] ui fl run split show ?thesis
    by (simp add: sample_defs)
qed

text \<open>
  C3. With the UI on and the flavor \<^verbatim>\<open>swagger\<close>, the SwaggerUI middleware is set up
  with the base path, the option \<open>Path\<close> and the document URL
  \<^verbatim>\<open>path.Join(basePath, "swagger.json")\<close>, and the visit URL that a run shows is
  \<^verbatim>\<open>http://\<close>, the display host, a colon, the port of the listener, and
  \<^verbatim>\<open>path.Join(basePath, s.Path)\<close>.
\<close>

theorem swagger_ui_route_and_visit_url:
  assumes "\<not> NoUI s" and "Flavor s = ''swagger''"
    and "Execute env s args = (r, tr)" and "Go_Serve srv l \<in> set tr"
    and "swag_SplitHostPort env (Addr_String env l) = (sh, sp, e)"
  shows "set (visits tr) =
           {''http://'' @ display_host sh @ '':'' @ strconv_Itoa sp @
            path_Join env [base_path s, Path s]} \<and>
         (\<exists>b opts. Handler srv =
              handlers_CORS (middleware_Spec (base_path s) b
                (middleware_SwaggerUI opts http_NotFoundHandler)) \<and>
            SwaggerUI_BasePath opts = base_path s \<and> SwaggerUI_Path opts = Path s \<and>
            SwaggerUI_SpecURL opts = path_Join env [base_path s, ''swagger.json''])"
proof -
  from assms(2) have nr: "Flavor s \<noteq> ''redoc''" and sw: "DocURL s \<noteq> '''' \<or> Flavor s = ''swagger''"
    by simp_all
  from started_visits[OF assms(3,4,5)] show ?thesis
    by (auto simp: compose_swagger[OF assms(1) nr sw])
qed

theorem swagger_ui_route_and_visit_url_witness:
  "\<not> NoUI (sample_cmd\<lparr>Flavor := ''swagger'', BasePath := ''/api'', Path := ''ui'',
                        Host := ''127.0.0.1'', Port := 8080\<rparr>) \<and>
   Flavor (sample_cmd\<lparr>Flavor := ''swagger'', BasePath := ''/api'', Path := ''ui'',
                        Host := ''127.0.0.1'', Port := 8080\<rparr>) = ''swagger'' \<and>
   Execute sample_env (sample_cmd\<lparr>Flavor := ''swagger'', BasePath := ''/api'', Path := ''ui'',
                        Host := ''127.0.0.1'', Port := 8080\<rparr>) [''petstore.json''] =
     (Blocks,
      [Call_loads_Spec ''petstore.json'',
       Call_MarshalIndent ''petstore'' '''' ''  '',
       Call_Listen ''tcp4'' ''127.0.0.1:8080'',
       Call_SplitHostPort ''127.0.0.1:8080'',
       Go_Serve \<lparr>KeepAlivesEnabled = True,
                 Handler = handlers_CORS (middleware_Spec ''/api'' ''{  petstore}''
                   (middleware_SwaggerUI
                      \<lparr>SwaggerUI_BasePath = ''/api'', SwaggerUI_SpecURL = ''/api/swagger.json'',
                       SwaggerUI_Path = ''ui'',
                       SwaggerURL = ''https://unpkg.com/swagger-ui-dist/swagger-ui-bundle.js'',
                       SwaggerPresetURL =
                         ''https://unpkg.com/swagger-ui-dist/swagger-ui-standalone-preset.js'',
                       SwaggerStylesURL = ''https://unpkg.com/swagger-ui-dist/swagger-ui.css'',
                       Favicon16 = ''https://unpkg.com/swagger-ui-dist/favicon-16x16.png'',
                       Favicon32 = ''https://unpkg.com/swagger-ui-dist/favicon-32x32.png''\<rparr>
                      http_NotFoundHandler))\<rparr> ''127.0.0.1:8080'',
       Call_Open ''http://127.0.0.1:8080/api/ui'',
       Log_Println [''serving docs at'', ''http://127.0.0.1:8080/api/ui'']]) \<and>
   swag_SplitHostPort sample_env (Addr_String sample_env ''127.0.0.1:8080'') =
     (''127.0.0.1'', 8080, nil) \<and>
   set (visits (snd (Execute sample_env
      (sample_cmd\<lparr>Flavor := ''swagger'', BasePath := ''/api'', Path := ''ui'',
                   Host := ''127.0.0.1'', Port := 8080\<rparr>) [''petstore.json'']))) =
     {''http://127.0.0.1:8080/api/ui''}"
proof -
  let ?s = "sample_cmd\<lparr>Flavor := ''swagger'', BasePath := ''/api'', Path := ''ui'',
                        Host := ''127.0.0.1'', Port := 8080\<rparr>"
  let ?srv = "\<lparr>KeepAlivesEnabled = True,
                 Handler = handlers_CORS (middleware_Spec ''/api'' ''{  petstore}''
                   (middleware_SwaggerUI
                      \<lparr>SwaggerUI_BasePath = ''/api'', SwaggerUI_SpecURL = ''/api/swagger.json'',
                       SwaggerUI_Path = ''ui'',
                       SwaggerURL = ''https://unpkg.com/swagger-ui-dist/swagger-ui-bundle.js'',
                       SwaggerPresetURL =
                         ''https://unpkg.com/swagger-ui-dist/swagger-ui-standalone-preset.js'',
                       SwaggerStylesURL = ''https://unpkg.com/swagger-ui-dist/swagger-ui.css'',
                       Favicon16 = ''https://unpkg.com/swagger-ui-dist/favicon-16x16.png'',
                       Favicon32 = ''https://unpkg.com/swagger-ui-dist/favicon-32x32.png''\<rparr>
                      http_NotFoundHandler))\<rparr>"
  let ?tr = "[Call_loads_Spec ''petstore.json'',
       Call_MarshalIndent ''petstore'' '''' ''  '',
       Call_Listen ''tcp4'' ''127.0.0.1:8080'',
       Call_SplitHostPort ''127.0.0.1:8080'',
       Go_Serve ?srv ''127.0.0.1:8080'',
       Call_Open ''http://127.0.0.1:8080/api/ui'',
       Log_Println [''serving docs at'', ''http://127.0.0.1:8080/api/ui'']]"
  have ui: "\<not> NoUI ?s" and fl: "Flavor ?s = ''swagger''"
    by (simp_all add: sample_cmd_def)
  have run: "Execute sample_env ?s [''petstore.json''] = (Blocks, ?tr)"
    by (simp add: run_defs sample_defs)
  have started: "Go_Serve ?srv ''127.0.0.1:8080'' \<in> set ?tr"
    by simp
  have split: "swag_SplitHostPort sample_env (Addr_String sample_env ''127.0.0.1:8080'') =
     (''127.0.0.1'', 8080, nil)"
    by (simp add: sample_env_def)
  from swagger_ui_route_and_visit_url[OF ui fl run started split] ui fl run split show ?thesis
    by (simp add: sample_defs)
qed




text \<open>
  C5. The asset URLs of a composed chain are the asset prefix, a slash and the fixed file
  name: one URL for redoc, five for swagger-ui. The prefix is \<open>SourceUrL\<close> as it is when
  that option is not empty, for both flavors, and then every asset URL of the chain starts
  with \<open>SourceUrL\<close> and a slash; it is the flavor's own default constant otherwise. The
  chain a run serves is such a composed chain, so the same holds of it.
\<close>

theorem asset_urls_follow_source_override:
  "(SourceUrL s \<noteq> '''' \<longrightarrow>
      (\<forall>u \<in> set (asset_urls (fst (compose env s bp b sh sp))). prefix (SourceUrL s @ ''/'') u)) \<and>
   (\<not> NoUI s \<and> Flavor s = ''redoc'' \<longrightarrow>
      asset_urls (fst (compose env s bp b sh sp)) =
        [(if SourceUrL s \<noteq> '''' then SourceUrL s else DefaultRedocCloudStaticFileUrLPrefix)
         @ ''/redoc.standalone.js'']) \<and>
   (\<not> NoUI s \<and> Flavor s = ''swagger'' \<longrightarrow>
      asset_urls (fst (compose env s bp b sh sp)) =
        map (\<lambda>file. (if SourceUrL s \<noteq> '''' then SourceUrL s
                      else DefaultSwaggerCloudStaticFileUrLPrefix) @ ''/'' @ file)
          [''swagger-ui-bundle.js'', ''swagger-ui-standalone-preset.js'', ''swagger-ui.css'',
           ''favicon-16x16.png'', ''favicon-32x32.png'']) \<and>
   (Execute env s args = (r, tr) \<and> Go_Serve srv l \<in> set tr \<and> SourceUrL s \<noteq> '''' \<longrightarrow>
      (\<forall>u \<in> set (asset_urls (Handler srv)). prefix (SourceUrL s @ ''/'') u))"
proof -
  have all: "SourceUrL s \<noteq> '''' \<Longrightarrow>
      \<forall>u \<in> set (asset_urls (fst (compose env s bp' b' sh' sp'))). prefix (SourceUrL s @ ''/'') u"
    for bp' b' sh' sp'
    by (simp add: compose_def url_prefixes_def Let_def)
  have redoc: "\<not> NoUI s \<and> Flavor s = ''redoc'' \<longrightarrow>
      asset_urls (fst (compose env s bp b sh sp)) =
        [(if SourceUrL s \<noteq> '''' then SourceUrL s else DefaultRedocCloudStaticFileUrLPrefix)
         @ ''/redoc.standalone.js'']"
    by (simp add: compose_redoc url_prefixes_def)
  have swagger: "\<not> NoUI s \<and> Flavor s = ''swagger'' \<longrightarrow>
      asset_urls (fst (compose env s bp b sh sp)) =
        map (\<lambda>file. (if SourceUrL s \<noteq> '''' then SourceUrL s
                      else DefaultSwaggerCloudStaticFileUrLPrefix) @ ''/'' @ file)
          [''swagger-ui-bundle.js'', ''swagger-ui-standalone-preset.js'', ''swagger-ui.css'',
           ''favicon-16x16.png'', ''favicon-32x32.png'']"
    by (simp add: compose_swagger url_prefixes_def)
  have served: "Execute env s args = (r, tr) \<and> Go_Serve srv l \<in> set tr \<and> SourceUrL s \<noteq> '''' \<longrightarrow>
      (\<forall>u \<in> set (asset_urls (Handler srv)). prefix (SourceUrL s @ ''/'') u)"
  proof (intro impI, elim conjE)
    assume run: "Execute env s args = (r, tr)" and started: "Go_Serve srv l \<in> set tr"
      and src: "SourceUrL s \<noteq> ''''"
    obtain sh0 sp0 e0 where "swag_SplitHostPort env (Addr_String env l) = (sh0, sp0, e0)"
      by (cases "swag_SplitHostPort env (Addr_String env l)")
    from started_visits[OF run started this] obtain b0 where
      "Handler srv = fst (compose env s (base_path s) b0 (display_host sh0) sp0)"
      by blast
    with all[OF src] show "\<forall>u \<in> set (asset_urls (Handler srv)). prefix (SourceUrL s @ ''/'') u"
      by simp
  qed
  from all redoc swagger served show ?thesis
    by blast
qed

theorem asset_urls_follow_source_override_witness:
  "SourceUrL (sample_cmd\<lparr>Flavor := ''swagger'', SourceUrL := ''https://example.com/assets''\<rparr>)
     \<noteq> '''' \<and>
   \<not> NoUI (sample_cmd\<lparr>Flavor := ''swagger'', SourceUrL := ''https://example.com/assets''\<rparr>) \<and>
   asset_urls (fst (compose sample_env
       (sample_cmd\<lparr>Flavor := ''swagger'', SourceUrL := ''https://example.com/assets''\<rparr>)
       ''/'' ''{}'' ''localhost'' 8080)) =
     [''https://example.com/assets/swagger-ui-bundle.js'',
      ''https://example.com/assets/swagger-ui-standalone-preset.js'',
      ''https://example.com/assets/swagger-ui.css'',
      ''https://example.com/assets/favicon-16x16.png'',
      ''https://example.com/assets/favicon-32x32.png''] \<and>
   prefix ''https://example.com/assets/'' ''https://example.com/assets/swagger-ui-bundle.js'' \<and>
   prefix ''https://example.com/assets/'' ''https://example.com/assets/favicon-32x32.png'' \<and>
   \<not> NoUI (sample_cmd\<lparr>SourceUrL := ''https://example.com/assets''\<rparr>) \<and>
   Flavor (sample_cmd\<lparr>SourceUrL := ''https://example.com/assets''\<rparr>) = ''redoc'' \<and>
   asset_urls (fst (compose sample_env (sample_cmd\<lparr>SourceUrL := ''https://example.com/assets''\<rparr>)
       ''/'' ''{}'' ''localhost'' 8080)) =
     [''https://example.com/assets/redoc.standalone.js''] \<and>
   asset_urls (fst (compose sample_env sample_cmd ''/'' ''{}'' ''localhost'' 8080)) =
     [''https://cdn.jsdelivr.net/npm/redoc/bundles/redoc.standalone.js''] \<and>
   asset_urls (fst (compose sample_env (sample_cmd\<lparr>Flavor := ''swagger''\<rparr>)
       ''/'' ''{}'' ''localhost'' 8080)) =
     [''https://unpkg.com/swagger-ui-dist/swagger-ui-bundle.js'',
      ''https://unpkg.com/swagger-ui-dist/swagger-ui-standalone-preset.js'',
      ''https://unpkg.com/swagger-ui-dist/swagger-ui.css'',
      ''https://unpkg.com/swagger-ui-dist/favicon-16x16.png'',
      ''https://unpkg.com/swagger-ui-dist/favicon-32x32.png'']"
  using
    asset_urls_follow_source_override[of
      "sample_cmd\<lparr>Flavor := ''swagger'', SourceUrL := ''https://example.com/assets''\<rparr>"
      sample_env "''/''" "''{}''" "''localhost''" 8080]
    asset_urls_follow_source_override[of
      "sample_cmd\<lparr>SourceUrL := ''https://example.com/assets''\<rparr>"
      sample_env "''/''" "''{}''" "''localhost''" 8080]
    asset_urls_follow_source_override[of sample_cmd sample_env "''/''" "''{}''" "''localhost''" 8080]
    asset_urls_follow_source_override[of "sample_cmd\<lparr>Flavor := ''swagger''\<rparr>"
      sample_env "''/''" "''{}''" "''localhost''" 8080]
  by (simp add: sample_cmd_def DefaultRedocCloudStaticFileUrLPrefix_def
      DefaultSwaggerCloudStaticFileUrLPrefix_def)

text \<open>
  C6. Once the specification is loaded: without \<open>Flatten\<close> the expander is not called
  and the one value serialised is the \<^verbatim>\<open>Spec()\<close> of the document as loaded; with
  \<open>Flatten\<close> the expander is called once, on the loaded document, with
  \<^verbatim>\<open>SkipSchemas: false, ContinueOnError: true, AbsoluteCircularRef: true\<close>, and what is
  serialised is the \<^verbatim>\<open>Spec()\<close> of the document it returns. When the expander returns
  an error, the command returns that error, and nothing is serialised, no listener is
  asked for, no server started and no browser opened.
\<close>

theorem flatten_policy:
  assumes "loads_Spec env a = (d0, nil)" and "Execute env s (a # rest) = (r, tr)"
  shows "(\<not> Flatten s \<longrightarrow>
            expanded tr = [] \<and> marshalled tr = [(Spec env d0, '''', ''  '')]) \<and>
         (Flatten s \<longrightarrow>
            expanded tr = [(d0, \<lparr>SkipSchemas = False, ContinueOnError = True,
                                 AbsoluteCircularRef = True\<rparr>)]) \<and>
         (Flatten s \<and> Expanded env d0 \<lparr>SkipSchemas = False, ContinueOnError = True,
                                        AbsoluteCircularRef = True\<rparr> = (d1, nil) \<longrightarrow>
            marshalled tr = [(Spec env d1, '''', ''  '')]) \<and>
         (Flatten s \<and> Expanded env d0 \<lparr>SkipSchemas = False, ContinueOnError = True,
                                        AbsoluteCircularRef = True\<rparr> = (d1, e) \<and> e \<noteq> nil \<longrightarrow>
            r = Returns e \<and> marshalled tr = [] \<and> listened tr = [] \<and> served tr = [] \<and>
            opened tr = [])"
  using assms(2)
proof (cases rule: Execute_cases)
  case usage
  then show ?thesis by simp
next
  case load_failed
  with assms(1) show ?thesis by simp
next
  case (expand_failed d)
  with assms(1) show ?thesis
    by (auto simp: observer_defs expand_options_def)
next
  case (loaded d d' tr')
  from loaded(4) have tr': "tr' = snd (serve_document env s d')"
    by simp
  from loaded(2,3) assms(1) have d: "d = d0" and d': "d' = (if Flatten s
      then fst (Expanded env d0 expand_options) else d0)" and
      ok: "Flatten s \<longrightarrow> snd (Expanded env d0 expand_options) = nil"
    by (auto split: if_splits)
  have ex: "expanded tr = (if Flatten s then [(d0, expand_options)] else [])"
    unfolding loaded(5) tr' d
    by (simp add: expanded_def serve_document_observed(1)[unfolded expanded_def])
  have ma: "marshalled tr = [(Spec env d', '''', ''  '')]"
    unfolding loaded(5) tr' d
    by (simp add: marshalled_def serve_document_observed(2)[unfolded marshalled_def])
  from ex ma d' ok show ?thesis
    by (auto simp: expand_options_def)
qed

theorem flatten_policy_witness:
  "loads_Spec sample_env ''petstore.json'' = (''petstore'', nil) \<and>
   \<not> Flatten sample_cmd \<and>
   expanded (snd (Execute sample_env sample_cmd [''petstore.json''])) = [] \<and>
   marshalled (snd (Execute sample_env sample_cmd [''petstore.json''])) =
     [(''petstore'', '''', ''  '')] \<and>
   Flatten (sample_cmd\<lparr>Flatten := True\<rparr>) \<and>
   Expanded sample_env ''petstore''
     \<lparr>SkipSchemas = False, ContinueOnError = True, AbsoluteCircularRef = True\<rparr> =
     (''petstore expanded'', nil) \<and>
   Execute sample_env (sample_cmd\<lparr>Flatten := True\<rparr>) [''petstore.json''] =
     (Blocks,
      [Call_loads_Spec ''petstore.json'',
       Call_Expanded ''petstore''
         \<lparr>SkipSchemas = False, ContinueOnError = True, AbsoluteCircularRef = True\<rparr>,
       Call_MarshalIndent ''petstore expanded'' '''' ''  '',
       Call_Listen ''tcp4'' ''0.0.0.0:0'',
       Call_SplitHostPort ''0.0.0.0:49152'',
       Go_Serve \<lparr>KeepAlivesEnabled = True,
                 Handler = handlers_CORS (middleware_Spec ''/'' ''{  petstore expanded}''
                   (middleware_Redoc
                      \<lparr>Redoc_BasePath = ''/'', Redoc_SpecURL = ''/swagger.json'',
                       Redoc_Path = ''docs'',
                       RedocURL = ''https://cdn.jsdelivr.net/npm/redoc/bundles/redoc.standalone.js''\<rparr>
                      http_NotFoundHandler))\<rparr> ''0.0.0.0:49152'',
       Call_Open ''http://localhost:49152/docs'',
       Log_Println [''serving docs at'', ''http://localhost:49152/docs'']]) \<and>
   expanded (snd (Execute sample_env (sample_cmd\<lparr>Flatten := True\<rparr>) [''petstore.json''])) =
     [(''petstore'', \<lparr>SkipSchemas = False, ContinueOnError = True,
                      AbsoluteCircularRef = True\<rparr>)] \<and>
   marshalled (snd (Execute sample_env (sample_cmd\<lparr>Flatten := True\<rparr>) [''petstore.json''])) =
     [(''petstore expanded'', '''', ''  '')] \<and>
   Expanded (sample_env\<lparr>Expanded := (\<lambda>d opts. (d, Err ''unresolved reference''))\<rparr>) ''petstore''
     \<lparr>SkipSchemas = False, ContinueOnError = True, AbsoluteCircularRef = True\<rparr> =
     (''petstore'', Err ''unresolved reference'') \<and>
   Execute (sample_env\<lparr>Expanded := (\<lambda>d opts. (d, Err ''unresolved reference''))\<rparr>)
     (sample_cmd\<lparr>Flatten := True\<rparr>) [''petstore.json''] =
     (Returns (Err ''unresolved reference''),
      [Call_loads_Spec ''petstore.json'',
       Call_Expanded ''petstore''
         \<lparr>SkipSchemas = False, ContinueOnError = True, AbsoluteCircularRef = True\<rparr>]) \<and>
   listened (snd (Execute (sample_env\<lparr>Expanded := (\<lambda>d opts. (d, Err ''unresolved reference''))\<rparr>)
     (sample_cmd\<lparr>Flatten := True\<rparr>) [''petstore.json''])) = []"
proof -
  let ?opts = "\<lparr>SkipSchemas = False, ContinueOnError = True, AbsoluteCircularRef = True\<rparr>"
  let ?env = "sample_env\<lparr>Expanded := (\<lambda>d opts. (d, Err ''unresolved reference''))\<rparr>"
  let ?s = "sample_cmd\<lparr>Flatten := True\<rparr>"
  have ld: "loads_Spec sample_env ''petstore.json'' = (''petstore'', nil)"
    and ld': "loads_Spec ?env ''petstore.json'' = (''petstore'', nil)"
    and ex: "Expanded sample_env ''petstore'' ?opts = (''petstore expanded'', nil)"
    and ex': "Expanded ?env ''petstore'' ?opts = (''petstore'', Err ''unresolved reference'')"
    by (simp_all add: sample_env_def)
  have fl: "\<not> Flatten sample_cmd" "Flatten ?s"
    by (simp_all add: sample_cmd_def)
  have run1: "Execute sample_env sample_cmd [''petstore.json''] =
      (fst (Execute sample_env sample_cmd [''petstore.json'']),
       snd (Execute sample_env sample_cmd [''petstore.json'']))"
    by simp
  have run2: "Execute sample_env ?s [''petstore.json''] =
     (Blocks,
      [Call_loads_Spec ''petstore.json'',
       Call_Expanded ''petstore'' ?opts,
       Call_MarshalIndent ''petstore expanded'' '''' ''  '',
       Call_Listen ''tcp4'' ''0.0.0.0:0'',
       Call_SplitHostPort ''0.0.0.0:49152'',
       Go_Serve \<lparr>KeepAlivesEnabled = True,
                 Handler = handlers_CORS (middleware_Spec ''/'' ''{  petstore expanded}''
                   (middleware_Redoc
                      \<lparr>Redoc_BasePath = ''/'', Redoc_SpecURL = ''/swagger.json'',
                       Redoc_Path = ''docs'',
                       RedocURL = ''https://cdn.jsdelivr.net/npm/redoc/bundles/redoc.standalone.js''\<rparr>
                      http_NotFoundHandler))\<rparr> ''0.0.0.0:49152'',
       Call_Open ''http://localhost:49152/docs'',
       Log_Println [''serving docs at'', ''http://localhost:49152/docs'']])"
    by (simp add: run_defs sample_defs)
  have run3: "Execute ?env ?s [''petstore.json''] =
     (Returns (Err ''unresolved reference''),
      [Call_loads_Spec ''petstore.json'', Call_Expanded ''petstore'' ?opts])"
    by (simp add: run_defs sample_defs)
  from flatten_policy[OF ld run1, of "''petstore expanded''" nil]
    flatten_policy[OF ld run2, of "''petstore expanded''" nil]
    flatten_policy[OF ld' run3, of "''petstore''" "Err ''unresolved reference''"]
    ld fl ex ex' run2 run3
  show ?thesis
    by (simp add: sample_env_def)
qed

text \<open>
  C8. Without an argument the command returns the usage error at once, having called
  nothing. Whenever one of the calls to the loader, the expander, the encoder or
  \<^verbatim>\<open>net.Listen\<close> returned an error, the command returned that very error, the failed
  call is the last thing it did, and no server was started and no browser opened (for the
  first three, no listener was asked for either). Nothing is tried again: in every run the
  steps taken are distinct and in the order load, expand, serialise, listen, split, serve,
  open, log.
\<close>

theorem startup_failures_are_fatal:
  assumes "Execute env s args = (r, tr)"
  shows "(args = [] \<longrightarrow>
            r = Returns (errors_New ''specify the spec to serve as argument to the serve command'') \<and>
            tr = []) \<and>
         (\<forall>a. Call_loads_Spec a \<in> set tr \<and> snd (loads_Spec env a) \<noteq> nil \<longrightarrow>
            r = Returns (snd (loads_Spec env a)) \<and> tr = [Call_loads_Spec a]) \<and>
         (\<forall>d opts. Call_Expanded d opts \<in> set tr \<and> snd (Expanded env d opts) \<noteq> nil \<longrightarrow>
            r = Returns (snd (Expanded env d opts)) \<and> last tr = Call_Expanded d opts \<and>
            listened tr = [] \<and> served tr = [] \<and> opened tr = []) \<and>
         (\<forall>v pre ind. Call_MarshalIndent v pre ind \<in> set tr \<and>
              snd (json_MarshalIndent env v pre ind) \<noteq> nil \<longrightarrow>
            r = Returns (snd (json_MarshalIndent env v pre ind)) \<and>
            last tr = Call_MarshalIndent v pre ind \<and>
            listened tr = [] \<and> served tr = [] \<and> opened tr = []) \<and>
         (\<forall>network address. Call_Listen network address \<in> set tr \<and>
              snd (net_Listen env network address) \<noteq> nil \<longrightarrow>
            r = Returns (snd (net_Listen env network address)) \<and>
            last tr = Call_Listen network address \<and> served tr = [] \<and> opened tr = []) \<and>
         distinct (map step_of tr) \<and>
         subseq (map step_of tr)
           [Load, Expand, Marshal, Listen, SplitHostPort, ServeStart, OpenBrowser, Log]"
  using assms
proof (cases rule: Execute_cases)
  case usage
  then show ?thesis by simp
next
  case load_failed
  then show ?thesis by simp
next
  case (expand_failed d0)
  then show ?thesis
    by (simp add: observer_defs)
next
  case (loaded d0 d tr')
  from loaded(4) show ?thesis
  proof (cases rule: serve_document_cases)
    case marshal_failed
    with loaded(1,2,3,5) show ?thesis
      by (auto simp: observer_defs split: if_splits)
  next
    case (listen_failed b)
    with loaded(1,2,3,5) show ?thesis
      by (auto simp: observer_defs split: if_splits)
  next
    case (split_failed b l)
    with loaded(1,2,3,5) show ?thesis
      by (auto simp: observer_defs split: if_splits)
  next
    case (started b l sh sp h v)
    with loaded(1,2,3,5) show ?thesis
      by (auto simp: observer_defs serve_and_open_trace split: if_splits)
  qed
qed

theorem startup_failures_are_fatal_witness:
  "Execute sample_env sample_cmd [] =
     (Returns (Err ''specify the spec to serve as argument to the serve command''), []) \<and>
   snd (loads_Spec sample_env ''missing.json'') \<noteq> nil \<and>
   Execute sample_env sample_cmd [''missing.json''] =
     (Returns (Err ''no such file or directory''), [Call_loads_Spec ''missing.json'']) \<and>
   snd (Expanded (sample_env\<lparr>Expanded := (\<lambda>d opts. (d, Err ''unresolved reference''))\<rparr>)
          ''petstore'' expand_options) \<noteq> nil \<and>
   Execute (sample_env\<lparr>Expanded := (\<lambda>d opts. (d, Err ''unresolved reference''))\<rparr>)
     (sample_cmd\<lparr>Flatten := True\<rparr>) [''petstore.json''] =
     (Returns (Err ''unresolved reference''),
      [Call_loads_Spec ''petstore.json'', Call_Expanded ''petstore'' expand_options]) \<and>
   snd (json_MarshalIndent
          (sample_env\<lparr>json_MarshalIndent := (\<lambda>v pre ind. ('''', Err ''unsupported value''))\<rparr>)
          ''petstore'' '''' ''  '') \<noteq> nil \<and>
   Execute (sample_env\<lparr>json_MarshalIndent := (\<lambda>v pre ind. ('''', Err ''unsupported value''))\<rparr>)
     sample_cmd [''petstore.json''] =
     (Returns (Err ''unsupported value''),
      [Call_loads_Spec ''petstore.json'', Call_MarshalIndent ''petstore'' '''' ''  '']) \<and>
   snd (net_Listen sample_env ''tcp4'' ''0.0.0.0:80'') \<noteq> nil \<and>
   Execute sample_env (sample_cmd\<lparr>Port := 80\<rparr>) [''petstore.json''] =
     (Returns (Err ''bind: permission denied''),
      [Call_loads_Spec ''petstore.json'', Call_MarshalIndent ''petstore'' '''' ''  '',
       Call_Listen ''tcp4'' ''0.0.0.0:80'']) \<and>
   served (snd (Execute sample_env (sample_cmd\<lparr>Port := 80\<rparr>) [''petstore.json''])) = [] \<and>
   opened (snd (Execute sample_env (sample_cmd\<lparr>Port := 80\<rparr>) [''petstore.json''])) = [] \<and>
   map step_of (snd (Execute sample_env sample_cmd [''petstore.json''])) =
     [Load, Marshal, Listen, SplitHostPort, ServeStart, OpenBrowser, Log] \<and>
   distinct (map step_of (snd (Execute sample_env sample_cmd [''petstore.json''])))"
proof -
  let ?env_x = "sample_env\<lparr>Expanded := (\<lambda>d opts. (d, Err ''unresolved reference''))\<rparr>"
  let ?env_m = "sample_env\<lparr>json_MarshalIndent := (\<lambda>v pre ind. ('''', Err ''unsupported value''))\<rparr>"
  have run0: "Execute sample_env sample_cmd [] =
     (Returns (Err ''specify the spec to serve as argument to the serve command''), [])"
    by (simp add: run_defs sample_defs)
  have run1: "Execute sample_env sample_cmd [''missing.json''] =
     (Returns (Err ''no such file or directory''), [Call_loads_Spec ''missing.json''])"
    by (simp add: run_defs sample_defs)
  have run2: "Execute ?env_x (sample_cmd\<lparr>Flatten := True\<rparr>) [''petstore.json''] =
     (Returns (Err ''unresolved reference''),
      [Call_loads_Spec ''petstore.json'', Call_Expanded ''petstore'' expand_options])"
    by (simp add: run_defs sample_env_def sample_cmd_def)
  have run3: "Execute ?env_m sample_cmd [''petstore.json''] =
     (Returns (Err ''unsupported value''),
      [Call_loads_Spec ''petstore.json'', Call_MarshalIndent ''petstore'' '''' ''  ''])"
    by (simp add: run_defs sample_defs)
  have run4: "Execute sample_env (sample_cmd\<lparr>Port := 80\<rparr>) [''petstore.json''] =
     (Returns (Err ''bind: permission denied''),
      [Call_loads_Spec ''petstore.json'', Call_MarshalIndent ''petstore'' '''' ''  '',
       Call_Listen ''tcp4'' ''0.0.0.0:80''])"
    by (simp add: run_defs sample_defs)
  have run5: "Execute sample_env sample_cmd [''petstore.json''] =
     (fst (Execute sample_env sample_cmd [''petstore.json'']),
      snd (Execute sample_env sample_cmd [''petstore.json'']))"
    by simp
  have steps: "map step_of (snd (Execute sample_env sample_cmd [''petstore.json''])) =
     [Load, Marshal, Listen, SplitHostPort, ServeStart, OpenBrowser, Log]"
    by (simp add: run_defs sample_defs)
  have errs: "snd (loads_Spec sample_env ''missing.json'') \<noteq> nil"
    "snd (Expanded ?env_x ''petstore'' expand_options) \<noteq> nil"
    "snd (json_MarshalIndent ?env_m ''petstore'' '''' ''  '') \<noteq> nil"
    "snd (net_Listen sample_env ''tcp4'' ''0.0.0.0:80'') \<noteq> nil"
    by (simp_all add: sample_env_def)
  from startup_failures_are_fatal[OF run0]
  have u0: "Execute sample_env sample_cmd [] =
     (Returns (errors_New ''specify the spec to serve as argument to the serve command''), [])"
    by (simp add: run0)
  from startup_failures_are_fatal[OF run1] errs(1)
  have u1: "Returns (Err ''no such file or directory'') =
      Returns (snd (loads_Spec sample_env ''missing.json''))"
    by simp
  from startup_failures_are_fatal[OF run2] errs(2)
  have u2: "Returns (Err ''unresolved reference'') =
      Returns (snd (Expanded ?env_x ''petstore'' expand_options))"
    by simp
  from startup_failures_are_fatal[OF run3] errs(3)
  have u3: "Returns (Err ''unsupported value'') =
      Returns (snd (json_MarshalIndent ?env_m ''petstore'' '''' ''  ''))"
    by simp
  from startup_failures_are_fatal[OF run4] errs(4)
  have u4: "served [Call_loads_Spec ''petstore.json'',
       Call_MarshalIndent ''petstore'' '''' ''  '' :: (string, string, string) event,
       Call_Listen ''tcp4'' ''0.0.0.0:80''] = [] \<and>
     opened [Call_loads_Spec ''petstore.json'',
       Call_MarshalIndent ''petstore'' '''' ''  '' :: (string, string, string) event,
       Call_Listen ''tcp4'' ''0.0.0.0:80''] = []"
    by simp
  from startup_failures_are_fatal[OF run5]
  have u5: "distinct (map step_of (snd (Execute sample_env sample_cmd [''petstore.json''])))"
    by simp
  from u0 u1 u2 u3 u4 u5 run0 run1 run2 run3 run4 steps errs
  show ?thesis
    by simp
qed

text \<open>
  C9. When the browser launcher was called and returned an error, the command returns
  that error. The server had been started on its goroutine before (the trace shows it),
  nothing is printed, and the result does not wait for \<^verbatim>\<open>Serve\<close>: it is the same
  whatever \<^verbatim>\<open>Serve\<close> does, also when it never returns.
\<close>

theorem browser_failure_is_fatal:
  assumes "Execute env s args = (r, tr)" and "Call_Open u \<in> set tr"
    and "webbrowser_Open env u \<noteq> nil"
  shows "r = Returns (webbrowser_Open env u) \<and> last tr = Call_Open u \<and> logged tr = [] \<and>
         (\<exists>srv l. served tr = [(srv, l)]) \<and>
         fst (Execute (env\<lparr>Serve := sv\<rparr>) s args) = Returns (webbrowser_Open env u)"
  using assms(1)
proof (cases rule: Execute_cases)
  case usage
  with assms(2) show ?thesis by simp
next
  case load_failed
  with assms(2) show ?thesis by simp
next
  case (expand_failed d0)
  with assms(2) show ?thesis by simp
next
  case (loaded d0 d tr')
  from loaded(4) show ?thesis
  proof (cases rule: serve_document_cases)
    case marshal_failed
    with loaded(5) assms(2) show ?thesis
      by (simp split: if_splits)
  next
    case (listen_failed b)
    with loaded(5) assms(2) show ?thesis
      by (simp split: if_splits)
  next
    case (split_failed b l)
    with loaded(5) assms(2) show ?thesis
      by (simp split: if_splits)
  next
    case (started b l sh sp h v)
    from started(6) loaded(5) assms(2) have open_v: "u = v" "\<not> NoOpen s" "\<not> NoUI s"
      by (auto simp: serve_and_open_trace split: if_splits)
    with assms(3) have fails: "webbrowser_Open env v \<noteq> nil"
      by simp
    from started(6) loaded(5) open_v fails
    have tr: "tr = Call_loads_Spec (args ! 0) #
        (if Flatten s then [Call_Expanded d0 expand_options] else []) @
        [Call_MarshalIndent (Spec env d) '''' ''  '', Call_Listen ''tcp4'' (listen_address env s),
         Call_SplitHostPort (Addr_String env l),
         Go_Serve \<lparr>KeepAlivesEnabled = True, Handler = h\<rparr> l, Call_Open v]"
      by (simp add: serve_and_open_trace)
    from started(5) open_v fails have r: "r = Returns (webbrowser_Open env u)"
      by (simp add: serve_and_open_result)
    have comp: "compose (env\<lparr>Serve := sv\<rparr>) s (base_path s) b (display_host sh) sp = (h, v)"
      using started(4) by (simp add: compose_env[of "env\<lparr>Serve := sv\<rparr>" env])
    have "fst (Execute (env\<lparr>Serve := sv\<rparr>) s args) = Returns (webbrowser_Open env v)"
      using loaded(1,2,3) started(1,2,3) comp open_v fails
      by (auto simp: run_paths Let_def listen_address_def)
    with r tr open_v show ?thesis
      by (simp add: logged_def served_def)
  qed
qed

theorem browser_failure_is_fatal_witness:
  "Execute (sample_env\<lparr>webbrowser_Open := (\<lambda>u. Err ''no browser found'')\<rparr>) sample_cmd
     [''petstore.json''] =
     (Returns (Err ''no browser found''),
      [Call_loads_Spec ''petstore.json'',
       Call_MarshalIndent ''petstore'' '''' ''  '',
       Call_Listen ''tcp4'' ''0.0.0.0:0'',
       Call_SplitHostPort ''0.0.0.0:49152'',
       Go_Serve \<lparr>KeepAlivesEnabled = True,
                 Handler = handlers_CORS (middleware_Spec ''/'' ''{  petstore}''
                   (middleware_Redoc
                      \<lparr>Redoc_BasePath = ''/'', Redoc_SpecURL = ''/swagger.json'',
                       Redoc_Path = ''docs'',
                       RedocURL = ''https://cdn.jsdelivr.net/npm/redoc/bundles/redoc.standalone.js''\<rparr>
                      http_NotFoundHandler))\<rparr> ''0.0.0.0:49152'',
       Call_Open ''http://localhost:49152/docs'']) \<and>
   webbrowser_Open (sample_env\<lparr>webbrowser_Open := (\<lambda>u. Err ''no browser found'')\<rparr>)
     ''http://localhost:49152/docs'' \<noteq> nil \<and>
   Serve (sample_env\<lparr>webbrowser_Open := (\<lambda>u. Err ''no browser found'')\<rparr>)
     \<lparr>KeepAlivesEnabled = True, Handler = http_NotFoundHandler\<rparr> ''0.0.0.0:49152'' = Blocks \<and>
   fst (Execute (sample_env\<lparr>webbrowser_Open := (\<lambda>u. Err ''no browser found''),
                            Serve := (\<lambda>srv l. Returns (Err ''http: Server closed''))\<rparr>)
          sample_cmd [''petstore.json'']) = Returns (Err ''no browser found'')"
proof -
  let ?env = "sample_env\<lparr>webbrowser_Open := (\<lambda>u. Err ''no browser found'')\<rparr>"
  let ?tr = "[Call_loads_Spec ''petstore.json'',
       Call_MarshalIndent ''petstore'' '''' ''  '',
       Call_Listen ''tcp4'' ''0.0.0.0:0'',
       Call_SplitHostPort ''0.0.0.0:49152'',
       Go_Serve \<lparr>KeepAlivesEnabled = True,
                 Handler = handlers_CORS (middleware_Spec ''/'' ''{  petstore}''
                   (middleware_Redoc
                      \<lparr>Redoc_BasePath = ''/'', Redoc_SpecURL = ''/swagger.json'',
                       Redoc_Path = ''docs'',
                       RedocURL = ''https://cdn.jsdelivr.net/npm/redoc/bundles/redoc.standalone.js''\<rparr>
                      http_NotFoundHandler))\<rparr> ''0.0.0.0:49152'',
       Call_Open ''http://localhost:49152/docs''] :: (string, string, string) event list"
  have run: "Execute ?env sample_cmd [''petstore.json''] =
      (Returns (Err ''no browser found''), ?tr)"
    by (simp add: run_defs sample_defs)
  have opened: "Call_Open ''http://localhost:49152/docs'' \<in> set ?tr"
    by simp
  have fails: "webbrowser_Open ?env ''http://localhost:49152/docs'' \<noteq> nil"
    by simp
  have blocks: "Serve ?env \<lparr>KeepAlivesEnabled = True, Handler = http_NotFoundHandler\<rparr>
      ''0.0.0.0:49152'' = Blocks"
    by (simp add: sample_env_def)
  from browser_failure_is_fatal[OF run opened fails,
      of "\<lambda>srv l. Returns (Err ''http: Server closed'')"] run fails blocks
  show ?thesis
    by simp
qed

text \<open>
  C10. A browser is opened only in runs with \<open>NoOpen\<close> and \<open>NoUI\<close> both off, and in
  every such run that got as far as starting the server it is opened, once, at the visit
  URL. With \<open>NoUI\<close> on, a run that started the server opens no browser and prints
  \<open>DocURL\<close> as the visit URL. The option \<open>NoOpen\<close> does not change the server that is
  started, and \<open>NoUI\<close> changes nothing of its handler chain but the UI part: with the UI
  part taken out, the chains are the same for both values of \<open>NoUI\<close>.
\<close>

theorem browser_launch_condition:
  assumes "Execute env s args = (r, tr)"
  shows "(opened tr \<noteq> [] \<longrightarrow> \<not> NoOpen s \<and> \<not> NoUI s) \<and>
         (served tr \<noteq> [] \<and> \<not> NoOpen s \<and> \<not> NoUI s \<longrightarrow>
            (\<exists>u. opened tr = [u] \<and> set (visits tr) = {u})) \<and>
         (served tr \<noteq> [] \<and> NoUI s \<longrightarrow>
            opened tr = [] \<and> logged tr = [[''serving docs at'', DocURL s]]) \<and>
         served (snd (Execute env (s\<lparr>NoOpen := x\<rparr>) args)) = served tr \<and>
         map (\<lambda>(srv, l). (strip_ui (Handler srv), l))
             (served (snd (Execute env (s\<lparr>NoUI := y\<rparr>) args))) =
           map (\<lambda>(srv, l). (strip_ui (Handler srv), l)) (served tr)"
proof -
  have tr: "tr = snd (Execute env s args)"
    using assms by simp
  have "served (snd (Execute env (s\<lparr>NoOpen := x\<rparr>) args)) = served (snd (Execute env s args))"
    by (simp add: served_Execute compose_NoOpen base_path_def listen_address_def Let_def)
  then have noopen: "served (snd (Execute env (s\<lparr>NoOpen := x\<rparr>) args)) = served tr"
    by (simp add: tr)
  have "map (\<lambda>(srv, l). (strip_ui (Handler srv), l))
             (served (snd (Execute env (s\<lparr>NoUI := y\<rparr>) args))) =
        map (\<lambda>(srv, l). (strip_ui (Handler srv), l)) (served (snd (Execute env s args)))"
    by (simp add: served_Execute strip_ui_compose base_path_def listen_address_def Let_def)
  then have noui: "map (\<lambda>(srv, l). (strip_ui (Handler srv), l))
             (served (snd (Execute env (s\<lparr>NoUI := y\<rparr>) args))) =
           map (\<lambda>(srv, l). (strip_ui (Handler srv), l)) (served tr)"
    by (simp add: tr)
  have launch: "(opened tr \<noteq> [] \<longrightarrow> \<not> NoOpen s \<and> \<not> NoUI s) \<and>
         (served tr \<noteq> [] \<and> \<not> NoOpen s \<and> \<not> NoUI s \<longrightarrow>
            (\<exists>u. opened tr = [u] \<and> set (visits tr) = {u})) \<and>
         (served tr \<noteq> [] \<and> NoUI s \<longrightarrow>
            opened tr = [] \<and> logged tr = [[''serving docs at'', DocURL s]])"
    using assms
  proof (cases rule: Execute_cases)
    case usage
    then show ?thesis by (simp add: observer_defs)
  next
    case load_failed
    then show ?thesis by (simp add: observer_defs)
  next
    case (expand_failed d0)
    then show ?thesis by (simp add: observer_defs)
  next
    case (loaded d0 d tr')
    from loaded(4) show ?thesis
    proof (cases rule: serve_document_cases)
      case marshal_failed
      with loaded(5) show ?thesis
        by (simp add: observer_defs)
    next
      case (listen_failed b)
      with loaded(5) show ?thesis
        by (simp add: observer_defs)
    next
      case (split_failed b l)
      with loaded(5) show ?thesis
        by (simp add: observer_defs)
    next
      case (started b l sh sp h v)
      from started(4) have "NoUI s \<Longrightarrow> v = DocURL s"
        by (simp add: compose_noUI)
      with started(6) loaded(5) show ?thesis
        by (auto simp: observer_defs serve_and_open_trace)
    qed
  qed
  from launch noopen noui show ?thesis
    by blast
qed

theorem browser_launch_condition_witness:
  "\<not> NoOpen sample_cmd \<and> \<not> NoUI sample_cmd \<and>
   served (snd (Execute sample_env sample_cmd [''petstore.json''])) \<noteq> [] \<and>
   opened (snd (Execute sample_env sample_cmd [''petstore.json''])) =
     [''http://localhost:49152/docs''] \<and>
   NoUI (sample_cmd\<lparr>NoUI := True, DocURL := ''http://example.com/viewer''\<rparr>) \<and>
   \<not> NoOpen (sample_cmd\<lparr>NoUI := True, DocURL := ''http://example.com/viewer''\<rparr>) \<and>
   served (snd (Execute sample_env
     (sample_cmd\<lparr>NoUI := True, DocURL := ''http://example.com/viewer''\<rparr>)
     [''petstore.json''])) \<noteq> [] \<and>
   opened (snd (Execute sample_env
     (sample_cmd\<lparr>NoUI := True, DocURL := ''http://example.com/viewer''\<rparr>)
     [''petstore.json''])) = [] \<and>
   logged (snd (Execute sample_env
     (sample_cmd\<lparr>NoUI := True, DocURL := ''http://example.com/viewer''\<rparr>)
     [''petstore.json''])) = [[''serving docs at'', ''http://example.com/viewer'']] \<and>
   opened (snd (Execute sample_env (sample_cmd\<lparr>NoOpen := True\<rparr>) [''petstore.json''])) = [] \<and>
   served (snd (Execute sample_env (sample_cmd\<lparr>NoOpen := True\<rparr>) [''petstore.json''])) =
     served (snd (Execute sample_env sample_cmd [''petstore.json'']))"
proof -
  let ?s1 = "sample_cmd\<lparr>NoUI := True, DocURL := ''http://example.com/viewer''\<rparr>"
  let ?s2 = "sample_cmd\<lparr>NoOpen := True\<rparr>"
  have flags: "\<not> NoOpen sample_cmd" "\<not> NoUI sample_cmd" "NoUI ?s1" "\<not> NoOpen ?s1"
    "DocURL ?s1 = ''http://example.com/viewer''"
    by (simp_all add: sample_cmd_def)
  have run0: "Execute sample_env sample_cmd [''petstore.json''] =
      (fst (Execute sample_env sample_cmd [''petstore.json'']),
       snd (Execute sample_env sample_cmd [''petstore.json'']))"
    and run1: "Execute sample_env ?s1 [''petstore.json''] =
      (fst (Execute sample_env ?s1 [''petstore.json'']),
       snd (Execute sample_env ?s1 [''petstore.json'']))"
    by simp_all
  have started0: "served (snd (Execute sample_env sample_cmd [''petstore.json''])) \<noteq> []"
    and started1: "served (snd (Execute sample_env ?s1 [''petstore.json''])) \<noteq> []"
    by (simp_all add: run_defs sample_defs served_def)
  have opened0: "opened (snd (Execute sample_env sample_cmd [''petstore.json''])) =
     [''http://localhost:49152/docs'']"
    and opened2: "opened (snd (Execute sample_env ?s2 [''petstore.json''])) = []"
    by (simp_all add: run_defs sample_defs opened_def)
  from browser_launch_condition[OF run1] flags started1
  have noui: "opened (snd (Execute sample_env ?s1 [''petstore.json''])) = [] \<and>
      logged (snd (Execute sample_env ?s1 [''petstore.json''])) =
        [[''serving docs at'', ''http://example.com/viewer'']]"
    by simp
  from browser_launch_condition[OF run0, of True]
  have noopen: "served (snd (Execute sample_env ?s2 [''petstore.json''])) =
     served (snd (Execute sample_env sample_cmd [''petstore.json'']))"
    by simp
  from flags started0 started1 opened0 opened2 noui noopen show ?thesis
    by simp
qed

end
